theory Spec2Isabelle
  imports Complex_Main
begin

section \<open>Security utilities\<close>

subsection \<open>Rate limiter\<close>

text \<open>
  The in-memory \<^verbatim>\<open>RateLimiter\<close>: a map from keys to a counter and the instant at
  which the current window ends. \<^verbatim>\<open>Date.now()\<close> is the argument \<open>now\<close> (milliseconds).
\<close>

record rate_record =
  count :: int
  resetAt :: int

type_synonym attempts = "string \<rightharpoonup> rate_record"

definition check :: "string \<Rightarrow> int \<Rightarrow> int \<Rightarrow> int \<Rightarrow> attempts \<Rightarrow> bool \<times> attempts" where
  "check key maxAttempts windowMs now att =
     (case att key of
        None \<Rightarrow> (True, att(key \<mapsto> \<lparr>count = 1, resetAt = now + windowMs\<rparr>))
      | Some r \<Rightarrow>
          if now > resetAt r
          then (True, att(key \<mapsto> \<lparr>count = 1, resetAt = now + windowMs\<rparr>))
          else if count r \<ge> maxAttempts then (False, att)
          else (True, att(key \<mapsto> r\<lparr>count := count r + 1\<rparr>)))"

text \<open>A sequence of calls of \<open>check\<close> for one key at the given instants.\<close>

fun run_checks :: "string \<Rightarrow> int \<Rightarrow> int \<Rightarrow> int list \<Rightarrow> attempts \<Rightarrow> bool list \<times> attempts" where
  "run_checks key maxAttempts windowMs [] att = ([], att)"
| "run_checks key maxAttempts windowMs (t # ts) att =
     (case check key maxAttempts windowMs t att of
        (ok, att') \<Rightarrow>
          (case run_checks key maxAttempts windowMs ts att' of
             (oks, att'') \<Rightarrow> (ok # oks, att'')))"

subsection \<open>Exceptions\<close>

text \<open>
  What a handler or helper can throw. \<open>APIError\<close> is better-auth's error (a status name,
  an optional message and optional details); \<open>RangeError\<close> is what Node's
  \<^verbatim>\<open>crypto.timingSafeEqual\<close> throws on buffers of different byte length; \<open>Thrown\<close>
  is any other error object, as the provider SDK or the persistence adapter throws it.
\<close>

datatype status_name =
  UNAUTHORIZED | TOO_MANY_REQUESTS | BAD_REQUEST | FORBIDDEN | NOT_FOUND | INTERNAL_SERVER_ERROR

record error_object =
  err_status :: "nat option"
  err_code :: "string option"
  err_message :: "string option"
  err_cause :: "string option"

datatype exn =
  APIError status_name "string option" "string option"
| RangeError
| Thrown error_object

fun is_APIError :: "exn \<Rightarrow> bool" where
  "is_APIError (APIError st msg details) = True"
| "is_APIError e = False"

subsection \<open>Webhook signature verification\<close>

text \<open>
  Strings are byte strings (the UTF-8 bytes \<^verbatim>\<open>Buffer.from\<close> yields). \<open>str_split\<close> is
  \<^verbatim>\<open>String.prototype.split\<close> with a one-character separator, \<open>startsWith\<close> and
  \<open>index1\<close> (the \<^verbatim>\<open>[1]\<close> of an array, undefined out of range) are as in JavaScript,
  and \<open>falsy\<close> is the truth test \<^verbatim>\<open>!s\<close> of a string that may be null or undefined.
\<close>

fun str_split :: "char \<Rightarrow> string \<Rightarrow> string list" where
  "str_split sep [] = [[]]"
| "str_split sep (c # cs) =
     (if c = sep then [] # str_split sep cs
      else (case str_split sep cs of [] \<Rightarrow> [[c]] | p # ps \<Rightarrow> (c # p) # ps))"

definition startsWith :: "string \<Rightarrow> string \<Rightarrow> bool" where
  "startsWith s p = (take (length p) s = p)"

fun index1 :: "'a list \<Rightarrow> 'a option" where
  "index1 (x # y # ys) = Some y"
| "index1 xs = None"

fun falsy :: "string option \<Rightarrow> bool" where
  "falsy None = True"
| "falsy (Some s) = (s = [])"

text \<open>
  \<^verbatim>\<open>crypto.timingSafeEqual(a, b)\<close>: Node throws a RangeError when the two buffers differ
  in byte length, and compares them otherwise.
\<close>

definition timingSafeEqual :: "string \<Rightarrow> string \<Rightarrow> exn + bool" where
  "timingSafeEqual a b = (if length a \<noteq> length b then Inl RangeError else Inr (a = b))"

text \<open>The manifest, \<^verbatim>\<open>`id:${dataId};request-id:${xRequestId};ts:${ts};`\<close>.\<close>

definition manifest :: "string \<Rightarrow> string \<Rightarrow> string \<Rightarrow> string" where
  "manifest dataId xRequestId ts = ''id:'' @ dataId @ '';request-id:'' @ xRequestId @ '';ts:'' @ ts @ '';''"

text \<open>
  \<open>verifyWebhookSignature\<close>. The keyed digest of \<^verbatim>\<open>node:crypto\<close>
  (\<^verbatim>\<open>createHmac("sha256", secret).update(manifest).digest("hex")\<close>) is the parameter
  \<open>hmac\<close>, applied to the secret and the message.
\<close>

definition verifyWebhookSignature ::
  "(string \<Rightarrow> string \<Rightarrow> string) \<Rightarrow> string option \<Rightarrow> string option \<Rightarrow> string \<Rightarrow> string \<Rightarrow> exn + bool"
where
  "verifyWebhookSignature hmac xSignature xRequestId dataId secret =
     (case (xSignature, xRequestId) of
        (Some sig, Some rid) \<Rightarrow>
          if sig = [] \<or> rid = [] then Inr False
          else
            let parts = str_split CHR '','' sig;
                ts = (case find (\<lambda>p. startsWith p ''ts='') parts of
                        None \<Rightarrow> None | Some p \<Rightarrow> index1 (str_split CHR ''='' p));
                hash = (case find (\<lambda>p. startsWith p ''v1='') parts of
                        None \<Rightarrow> None | Some p \<Rightarrow> index1 (str_split CHR ''='' p))
            in (case (ts, hash) of
                  (Some t, Some h) \<Rightarrow>
                    if t = [] \<or> h = [] then Inr False
                    else timingSafeEqual h (hmac secret (manifest dataId rid t))
                | _ \<Rightarrow> Inr False)
      | _ \<Rightarrow> Inr False)"

text \<open>
  The sibling helper \<open>secureCompare\<close> of the same file guards the comparison: it checks
  the lengths first and catches whatever \<^verbatim>\<open>timingSafeEqual\<close> throws.
\<close>

definition secureCompare :: "string \<Rightarrow> string \<Rightarrow> bool" where
  "secureCompare a b =
     (if length a \<noteq> length b then False
      else (case timingSafeEqual a b of Inl e \<Rightarrow> False | Inr r \<Rightarrow> r))"


text \<open>
  What the digest parameter is assumed to be: a function into strings of 64 lower-case
  hexadecimal digits, as a SHA-256 hex digest is.
\<close>

definition hex_digest :: "(string \<Rightarrow> string \<Rightarrow> string) \<Rightarrow> bool" where
  "hex_digest hmac = (\<forall>k m. length (hmac k m) = 64 \<and> set (hmac k m) \<subseteq> set ''0123456789abcdef'')"

text \<open>
  A stand-in digest, used only to instantiate \<open>hex_digest\<close> at concrete inputs: 64
  hexadecimal digits that depend on the key and the message. Nothing about SHA-256 is
  claimed of it.
\<close>

definition sample_hmac :: "string \<Rightarrow> string \<Rightarrow> string" where
  "sample_hmac k m =
     map (\<lambda>i. ''0123456789abcdef'' ! ((length k + 7 * length m + i * i) mod 16)) [0..<64]"

subsection \<open>Payment amount and metadata\<close>

text \<open>
  Amounts are JavaScript numbers, that is IEEE 754 doubles: a finite value, one of the two
  infinities, or NaN. A finite number is given by its exact value. The sign of a zero is
  not kept: the operations below give the same result for both zeros, division by zero
  apart, and the source divides by the literal 100 only.
\<close>

datatype number = Finite real | PosInfinity | NegInfinity | NaN

text \<open>
  Rounding to the nearest double, a tie to the one with the even significand.
  \<open>ties_to_even\<close> rounds to an integer in that way. \<open>halve\<close> and \<open>double_up\<close> scale a
  positive value by powers of two: they turn \<open>(x, 0)\<close> into \<open>(z, e)\<close> with \<open>x = z * 2^e\<close>
  and \<open>2^52 \<le> z < 2^53\<close>, or \<open>z < 2^52\<close> and \<open>e = -1074\<close> for a subnormal value. The
  significand is \<open>z\<close> rounded to an integer, and a result of \<open>2^1024\<close> or more overflows
  to infinity.
\<close>

definition ties_to_even :: "real \<Rightarrow> int" where
  "ties_to_even x =
     (let n = \<lfloor>x\<rfloor>; r = x - of_int n
      in if r < 1 / 2 then n else if 1 / 2 < r then n + 1 else if even n then n else n + 1)"

function halve :: "real \<Rightarrow> int \<Rightarrow> real \<times> int" where
  "halve x e = (if 2 ^ 53 \<le> x then halve (x / 2) (e + 1) else (x, e))"
  by pat_completeness auto
termination
proof (relation "measure (\<lambda>(x, e). nat \<lfloor>x\<rfloor>)")
  show "wf (measure (\<lambda>(x, e). nat \<lfloor>x\<rfloor>))" by simp
next
  fix x :: real and e :: int
  assume "2 ^ 53 \<le> x"
  then have "x / 2 + 1 \<le> x" "1 \<le> x" by simp_all
  then have "\<lfloor>x / 2\<rfloor> < \<lfloor>x\<rfloor>" "0 < \<lfloor>x\<rfloor>" by linarith+
  then show "((x / 2, e + 1), (x, e)) \<in> measure (\<lambda>(x, e). nat \<lfloor>x\<rfloor>)" by simp
qed

function double_up :: "real \<Rightarrow> int \<Rightarrow> real \<times> int" where
  "double_up x e = (if x < 2 ^ 52 \<and> - 1074 < e then double_up (x * 2) (e - 1) else (x, e))"
  by pat_completeness auto
termination
  by (relation "measure (\<lambda>(x, e). nat (e + 1074))") auto

declare halve.simps [simp del] double_up.simps [simp del]

definition double_of :: "real \<Rightarrow> number" where
  "double_of x =
     (if x = 0 then Finite 0
      else (case halve \<bar>x\<bar> 0 of
              (y, e) \<Rightarrow>
                (case double_up y e of
                   (z, e') \<Rightarrow>
                     let v = of_int (ties_to_even z) * 2 powi e'
                     in if 2 ^ 1024 \<le> v then (if x < 0 then NegInfinity else PosInfinity)
                        else Finite (if x < 0 then - v else v))))"

text \<open>
  The operators the source applies to numbers: \<^verbatim>\<open>+\<close>, \<^verbatim>\<open>-\<close>, \<^verbatim>\<open>*\<close>, \<^verbatim>\<open>/\<close>, \<^verbatim>\<open>Math.abs\<close>,
  \<^verbatim>\<open><=\<close> and \<^verbatim>\<open><\<close> (\<^verbatim>\<open>a >= b\<close> is \<open>num_le b a\<close>, \<^verbatim>\<open>a > b\<close> is \<open>num_lt b a\<close>), and the truth
  test, which fails for 0 and NaN. On finite numbers an operation is the exact one followed
  by the rounding; a comparison with NaN is false.
\<close>

fun num_neg :: "number \<Rightarrow> number" where
  "num_neg (Finite x) = Finite (- x)"
| "num_neg PosInfinity = NegInfinity"
| "num_neg NegInfinity = PosInfinity"
| "num_neg NaN = NaN"

fun num_add :: "number \<Rightarrow> number \<Rightarrow> number" where
  "num_add (Finite x) (Finite y) = double_of (x + y)"
| "num_add NaN b = NaN"
| "num_add a NaN = NaN"
| "num_add PosInfinity NegInfinity = NaN"
| "num_add NegInfinity PosInfinity = NaN"
| "num_add PosInfinity b = PosInfinity"
| "num_add a PosInfinity = PosInfinity"
| "num_add NegInfinity b = NegInfinity"
| "num_add a NegInfinity = NegInfinity"

definition num_sub :: "number \<Rightarrow> number \<Rightarrow> number" where
  "num_sub a b = num_add a (num_neg b)"

fun num_mul :: "number \<Rightarrow> number \<Rightarrow> number" where
  "num_mul (Finite x) (Finite y) = double_of (x * y)"
| "num_mul NaN b = NaN"
| "num_mul a NaN = NaN"
| "num_mul (Finite x) b = (if x = 0 then NaN else if 0 < x then b else num_neg b)"
| "num_mul a (Finite y) = (if y = 0 then NaN else if 0 < y then a else num_neg a)"
| "num_mul PosInfinity b = b"
| "num_mul NegInfinity b = num_neg b"

fun num_div :: "number \<Rightarrow> number \<Rightarrow> number" where
  "num_div (Finite x) (Finite y) =
     (if y = 0 then (if x = 0 then NaN else if 0 < x then PosInfinity else NegInfinity)
      else double_of (x / y))"
| "num_div NaN b = NaN"
| "num_div a NaN = NaN"
| "num_div (Finite x) b = Finite 0"
| "num_div a (Finite y) = (if 0 \<le> y then a else num_neg a)"
| "num_div a b = NaN"

fun num_abs :: "number \<Rightarrow> number" where
  "num_abs (Finite x) = Finite \<bar>x\<bar>"
| "num_abs PosInfinity = PosInfinity"
| "num_abs NegInfinity = PosInfinity"
| "num_abs NaN = NaN"

fun num_le :: "number \<Rightarrow> number \<Rightarrow> bool" where
  "num_le (Finite x) (Finite y) = (x \<le> y)"
| "num_le NaN b = False"
| "num_le a NaN = False"
| "num_le NegInfinity b = True"
| "num_le a PosInfinity = True"
| "num_le a b = False"

fun num_lt :: "number \<Rightarrow> number \<Rightarrow> bool" where
  "num_lt (Finite x) (Finite y) = (x < y)"
| "num_lt NaN b = False"
| "num_lt a NaN = False"
| "num_lt a NegInfinity = False"
| "num_lt PosInfinity b = False"
| "num_lt a b = True"

fun num_falsy :: "number option \<Rightarrow> bool" where
  "num_falsy None = True"
| "num_falsy (Some a) = (a = Finite 0 \<or> a = NaN)"

text \<open>
  \<open>validatePaymentAmount\<close>; its callers leave the tolerance to the default, the literal
  \<^verbatim>\<open>0.01\<close>, which denotes the double nearest to 1/100.
\<close>

definition validatePaymentAmount :: "number \<Rightarrow> number \<Rightarrow> number \<Rightarrow> bool" where
  "validatePaymentAmount requestedAmount mpPaymentAmount tolerance =
     num_le (num_abs (num_sub requestedAmount mpPaymentAmount)) tolerance"

definition default_tolerance :: number where
  "default_tolerance = double_of (1 / 100)"

text \<open>
  JSON-like values: what a request body or a metadata object can hold. The length of a
  string is the number of its characters.
\<close>

datatype json =
  JNull | JBool bool | JNum real | JStr string | JArr "json list" | JObj "(string \<times> json) list"

text \<open>The decimal name of an array index, as \<^verbatim>\<open>Object.entries\<close> of an array gives it.\<close>

fun string_of_nat :: "nat \<Rightarrow> string" where
  "string_of_nat n =
     (if n < 10 then [''0123456789'' ! n]
      else string_of_nat (n div 10) @ [''0123456789'' ! (n mod 10)])"

declare string_of_nat.simps [simp del]

text \<open>
  \<open>sanitizeMetadata\<close>. An object is the list of its entries, in the order of
  \<^verbatim>\<open>Object.entries\<close>. The loop over the entries is \<open>sanitizeMetadata\<close>; the branch on
  the entry's value is \<open>sanitize_value\<close>. \<^verbatim>\<open>typeof value === "object"\<close> holds of arrays
  too, so the function is called on an array as well: \<open>sanitizeMetadata_array i\<close> is the
  same loop over the entries \<open>(i, v\<^sub>i), (i+1, v\<^sub>i\<^sub>+\<^sub>1), ...\<close> of an array, and its result is
  a plain object.
\<close>

fun sanitizeMetadata :: "(string \<times> json) list \<Rightarrow> (string \<times> json) list"
  and sanitizeMetadata_array :: "nat \<Rightarrow> json list \<Rightarrow> (string \<times> json) list"
  and sanitize_value :: "json \<Rightarrow> json"
where
  "sanitizeMetadata [] = []"
| "sanitizeMetadata ((key, v) # entries) =
     (if key = ''__proto__'' \<or> key = ''constructor'' \<or> key = ''prototype''
      then sanitizeMetadata entries
      else (key, sanitize_value v) # sanitizeMetadata entries)"
| "sanitizeMetadata_array i [] = []"
| "sanitizeMetadata_array i (v # vs) =
     (if string_of_nat i = ''__proto__'' \<or> string_of_nat i = ''constructor''
         \<or> string_of_nat i = ''prototype''
      then sanitizeMetadata_array (Suc i) vs
      else (string_of_nat i, sanitize_value v) # sanitizeMetadata_array (Suc i) vs)"
| "sanitize_value (JStr s) = (if length s > 5000 then JStr (take 5000 s) else JStr s)"
| "sanitize_value (JObj entries) = JObj (sanitizeMetadata entries)"
| "sanitize_value (JArr vs) = JObj (sanitizeMetadata_array 0 vs)"
| "sanitize_value JNull = JNull"
| "sanitize_value (JBool b) = JBool b"
| "sanitize_value (JNum x) = JNum x"

subsection \<open>Provider errors\<close>

text \<open>
  \<open>handleMercadoPagoError\<close> never returns: its value here is the exception it throws.
  \<open>toAPIError\<close> maps the status through \<^verbatim>\<open>errorMap\<close>, falling back to BAD_REQUEST;
  \<^verbatim>\<open>error.message || "..."\<close> replaces a missing or empty message.
\<close>

definition errorMap :: "nat \<Rightarrow> status_name option" where
  "errorMap statusCode =
     (if statusCode = 400 then Some BAD_REQUEST
      else if statusCode = 401 then Some UNAUTHORIZED
      else if statusCode = 403 then Some FORBIDDEN
      else if statusCode = 404 then Some NOT_FOUND
      else if statusCode = 429 then Some TOO_MANY_REQUESTS
      else if statusCode = 500 then Some INTERNAL_SERVER_ERROR
      else None)"

definition toAPIError :: "nat \<Rightarrow> string \<Rightarrow> string option \<Rightarrow> exn" where
  "toAPIError statusCode message details =
     APIError (case errorMap statusCode of None \<Rightarrow> BAD_REQUEST | Some t \<Rightarrow> t) (Some message) details"

definition handleMercadoPagoError :: "error_object \<Rightarrow> exn" where
  "handleMercadoPagoError err =
     (case err_status err of
        Some st \<Rightarrow>
          if st \<noteq> 0
          then toAPIError st
                 (case err_message err of
                    None \<Rightarrow> ''An error occurred with Mercado Pago''
                  | Some m \<Rightarrow> if m = [] then ''An error occurred with Mercado Pago'' else m)
                 (err_cause err)
          else APIError INTERNAL_SERVER_ERROR (Some ''Failed to process Mercado Pago request'') None
      | None \<Rightarrow> APIError INTERNAL_SERVER_ERROR (Some ''Failed to process Mercado Pago request'') None)"

subsection \<open>Input validation\<close>

definition validCurrencies :: "string list" where
  "validCurrencies = [''ARS'', ''BRL'', ''CLP'', ''MXN'', ''COP'', ''PEN'', ''UYU'']"

definition ValidationRules_currency :: "string \<Rightarrow> bool" where
  "ValidationRules_currency c = (c \<in> set validCurrencies)"

definition ValidationRules_amount :: "number \<Rightarrow> bool" where
  "ValidationRules_amount a = (num_lt (Finite 0) a \<and> num_le a (Finite 999999999) \<and> a \<noteq> NaN)"

text \<open>
  \<open>validateIdempotencyKey\<close>: the UUID-v4 pattern or 8 to 64 characters of
  \<^verbatim>\<open>[a-zA-Z0-9_-]\<close>.
\<close>

definition is_hex :: "char \<Rightarrow> bool" where
  "is_hex c = (c \<in> set ''0123456789abcdefABCDEF'')"

definition is_key_char :: "char \<Rightarrow> bool" where
  "is_key_char c =
     (c \<in> set ''abcdefghijklmnopqrstuvwxyzABCDEFGHIJKLMNOPQRSTUVWXYZ0123456789_-'')"

definition uuidRegex :: "string \<Rightarrow> bool" where
  "uuidRegex k =
     (length k = 36
      \<and> list_all (\<lambda>i. if i \<in> {8, 13, 18, 23} then k ! i = CHR ''-''
                        else if i = 14 then k ! i = CHR ''4''
                        else if i = 19 then k ! i \<in> set ''89abAB''
                        else is_hex (k ! i)) [0..<36])"

definition customRegex :: "string \<Rightarrow> bool" where
  "customRegex k = (8 \<le> length k \<and> length k \<le> 64 \<and> list_all is_key_char k)"

definition validateIdempotencyKey :: "string \<Rightarrow> bool" where
  "validateIdempotencyKey k = (uuidRegex k \<or> customRegex k)"

definition VALID_WEBHOOK_TOPICS :: "string list" where
  "VALID_WEBHOOK_TOPICS =
     [''payment'', ''merchant_order'', ''subscription_preapproval'',
      ''subscription_preapproval_plan'', ''subscription_authorized_payment'',
      ''point_integration_wh'', ''topic_claims_integration_wh'',
      ''topic_merchant_order_wh'', ''delivery_cancellation'']"

definition isValidWebhookTopic :: "string \<Rightarrow> bool" where
  "isValidWebhookTopic topic = (topic \<in> set VALID_WEBHOOK_TOPICS)"

text \<open>
  \<open>validateCallbackUrl\<close>. \<^verbatim>\<open>new URL(url)\<close> is the parameter \<open>parse_url\<close> (protocol and
  hostname, or nothing when the constructor throws); \<open>production\<close> is
  \<^verbatim>\<open>process.env.NODE_ENV === "production"\<close>.
\<close>

definition endsWith :: "string \<Rightarrow> string \<Rightarrow> bool" where
  "endsWith s p = (length p \<le> length s \<and> drop (length s - length p) s = p)"

definition validateCallbackUrl ::
  "(string \<Rightarrow> (string \<times> string) option) \<Rightarrow> bool \<Rightarrow> string \<Rightarrow> string list \<Rightarrow> bool" where
  "validateCallbackUrl parse_url production url allowedDomains =
     (case parse_url url of
        None \<Rightarrow> False
      | Some (protocol, hostname) \<Rightarrow>
          if production \<and> protocol \<noteq> ''https:'' then False
          else list_ex (\<lambda>domain. if startsWith domain ''*.''
                                 then endsWith hostname (drop 2 domain)
                                 else hostname = domain) allowedDomains)"

section \<open>The plugin: state, environment and requests\<close>

subsection \<open>Records of the persistence adapter\<close>

text \<open>
  The payment table. The handler of \<^verbatim>\<open>server.ts\<close> and the handler that correlates by
  external reference use different schemas: the first always stores a
  \<^verbatim>\<open>mercadoPagoPaymentId\<close> and has no \<^verbatim>\<open>externalReference\<close> column; the second stores
  the external reference and fills \<^verbatim>\<open>mercadoPagoPaymentId\<close> from the first webhook. Both
  are optional fields here. Dates are instants in milliseconds.
\<close>

record payment_record =
  pay_id :: string
  externalReference :: "string option"
  userId :: string
  mercadoPagoPaymentId :: "string option"
  preferenceId :: string
  status :: "string option"
  statusDetail :: "string option"
  amount :: number
  currency :: string
  paymentMethodId :: "string option"
  paymentTypeId :: "string option"
  metadata :: "(string \<times> json) list"
  createdAt :: int
  updatedAt :: int

record subscription_record =
  sub_id :: string
  sub_userId :: string
  mercadoPagoSubscriptionId :: string
  planId :: string
  sub_status :: "string option"
  reason :: "string option"
  nextPaymentDate :: "int option"
  lastPaymentDate :: "int option"
  summarized :: "string option"
  sub_updatedAt :: int

record customer_record =
  cust_id :: string
  cust_userId :: string
  mercadoPagoId :: string
  email :: string
  cust_createdAt :: int
  cust_updatedAt :: int

record split_record =
  split_id :: string
  split_paymentId :: string
  split_collectorId :: string
  split_collectorEmail :: string
  split_applicationFeeAmount :: number
  split_applicationFeePercentage :: "number option"
  split_netAmount :: number
  split_createdAt :: int

subsection \<open>Provider resources\<close>

text \<open>What \<^verbatim>\<open>Payment.get\<close> and \<^verbatim>\<open>PreApproval.get\<close> return, with the fields the handlers read.\<close>

record mp_payment =
  mp_status :: "string option"
  status_detail :: "string option"
  payment_method_id :: "string option"
  payment_type_id :: "string option"
  transaction_amount :: "number option"
  mp_external_reference :: "string option"

record mp_preapproval =
  pre_status :: "string option"
  pre_reason :: "string option"
  next_payment_date :: "int option"
  last_modified :: "int option"
  pre_summarized :: "string option"

record item =
  item_id :: string
  title :: string
  quantity :: number
  unitPrice :: number
  currencyId :: string

text \<open>The body sent to \<^verbatim>\<open>Preference.create\<close>, and the preference it returns.\<close>

record preference_body =
  pb_items :: "item list"
  payer_email :: "string option"
  back_urls :: "string \<times> string \<times> string"
  auto_return :: "string option"
  notification_url :: "string option"
  external_reference :: "string option"
  pb_metadata :: "(string \<times> json) list"
  marketplace :: "string option"
  marketplace_fee :: "number option"
  expires :: bool
  expiration_date_from :: "int option"
  expiration_date_to :: "int option"

record preference =
  pref_id :: string
  init_point :: string

subsection \<open>Responses, logged effects and the state\<close>

record create_result =
  checkoutUrl :: string
  res_preferenceId :: string
  payment :: payment_record

text \<open>
  What the idempotency store holds: the marker \<^verbatim>\<open>true\<close> of a webhook, or the result of
  a creation. Both are truthy in JavaScript.
\<close>

datatype cached = Marker | Result create_result

text \<open>
  A response body: \<open>Received\<close> is \<^verbatim>\<open>ctx.json({ received: true })\<close>, \<open>Fresh\<close> is
  \<^verbatim>\<open>ctx.json(result)\<close> of a creation, and \<open>Replayed\<close> is \<^verbatim>\<open>ctx.json(cachedResult)\<close>.
\<close>

datatype response = Received | Replayed cached | Fresh create_result

datatype severity = Info | Warn | Err

text \<open>
  The effects a handler has on the outside world, in the order in which they happen:
  log lines, marks in the idempotency store, calls to the provider, writes through the
  persistence adapter, calls of the user's callbacks, and generated ids.
\<close>

record payment_update =
  upd_mercadoPagoPaymentId :: "string option"
  upd_status :: "string option"
  upd_statusDetail :: "string option"
  upd_paymentMethodId :: "string option"
  upd_paymentTypeId :: "string option"
  upd_updatedAt :: int

record subscription_update =
  upd_sub_status :: "string option"
  upd_reason :: "string option"
  upd_nextPaymentDate :: "int option"
  upd_lastPaymentDate :: "int option"
  upd_summarized :: "string option"
  upd_sub_updatedAt :: int

datatype event =
  Log severity string
| IdempotencySet string
| GenerateId string
| PaymentGet string
| PreApprovalGet string
| CustomerCreate string
| PreferenceCreate preference_body
| PaymentUpdate string payment_update
| SubscriptionUpdate string subscription_update
| CustomerInsert customer_record
| PaymentInsert payment_record
| SplitInsert split_record
| OnPaymentUpdate payment_record "string option" string
| OnSubscriptionUpdate subscription_record "string option" string
| OnSubscriptionPayment subscription_record "string option"

record plugin_state =
  attempts :: attempts
  store :: "string \<rightharpoonup> cached \<times> int"
  customers :: "customer_record list"
  payments :: "payment_record list"
  subscriptions :: "subscription_record list"
  splits :: "split_record list"
  events :: "event list"

definition emit :: "event \<Rightarrow> plugin_state \<Rightarrow> plugin_state" where
  "emit e s = s\<lparr>events := events s @ [e]\<rparr>"

definition logger :: "severity \<Rightarrow> string \<Rightarrow> plugin_state \<Rightarrow> plugin_state" where
  "logger sev msg s = emit (Log sev msg) s"

subsection \<open>Idempotency store\<close>

text \<open>
  \<open>idempotency_get\<close> and \<open>idempotency_set\<close> are \<^verbatim>\<open>IdempotencyStore.get\<close> and
  \<^verbatim>\<open>IdempotencyStore.set\<close>; \<open>get\<close> deletes the key when it has no record or an expired
  one.
\<close>

definition idempotency_get ::
  "string \<Rightarrow> int \<Rightarrow> (string \<rightharpoonup> cached \<times> int) \<Rightarrow> cached option \<times> (string \<rightharpoonup> cached \<times> int)" where
  "idempotency_get key now st =
     (case st key of
        None \<Rightarrow> (None, st(key := None))
      | Some (result, expiresAt) \<Rightarrow>
          if now > expiresAt then (None, st(key := None)) else (Some result, st))"

definition idempotency_set ::
  "string \<Rightarrow> cached \<Rightarrow> int \<Rightarrow> int \<Rightarrow> (string \<rightharpoonup> cached \<times> int) \<Rightarrow> (string \<rightharpoonup> cached \<times> int)" where
  "idempotency_set key result ttlMs now st = st(key \<mapsto> (result, now + ttlMs))"

definition day_ms :: int where
  "day_ms = 24 * 60 * 60 * 1000"

subsection \<open>Configuration, environment and requests\<close>

text \<open>How a call of a user callback or of the adapter ends.\<close>

datatype outcome = Returns | Throws error_object

text \<open>
  The plugin options the handlers read. A callback is modelled by how it ends on its
  arguments.
\<close>

record options =
  baseUrl :: "string option"
  webhookSecret :: "string option"
  trustedOrigins :: "string list option"
  onPaymentUpdate :: "(payment_record \<Rightarrow> mp_payment \<Rightarrow> outcome) option"
  onSubscriptionUpdate :: "(subscription_record \<Rightarrow> mp_preapproval \<Rightarrow> outcome) option"
  onSubscriptionPayment :: "(subscription_record \<Rightarrow> mp_payment \<Rightarrow> outcome) option"

text \<open>
  What the world answers during one request: the clock, the ids \<^verbatim>\<open>generateId()\<close>
  returns (by the number of the call), the provider's answers (\<open>Inl\<close>: the call throws)
  and whether the adapter's \<^verbatim>\<open>findOne\<close> and \<^verbatim>\<open>update\<close> complete. One request reads the
  clock at one instant.
\<close>

record environment =
  now :: int
  generateId :: "nat \<Rightarrow> string"
  adapterId :: string
  payment_get :: "string \<Rightarrow> error_object + mp_payment"
  preapproval_get :: "string \<Rightarrow> error_object + mp_preapproval"
  customer_create :: "string \<Rightarrow> error_object + string"
  preference_create :: "preference_body \<Rightarrow> error_object + preference"
  adapter_findOne :: outcome
  adapter_update :: outcome
  contextBaseURL :: string
  hmac_sha256 :: "string \<Rightarrow> string \<Rightarrow> string"
  parse_url :: "string \<Rightarrow> (string \<times> string) option"
  production :: bool

text \<open>
  A webhook request: the notification's \<^verbatim>\<open>type\<close> and \<^verbatim>\<open>data.id\<close>, whether
  \<^verbatim>\<open>ctx.request\<close> is there, and the two headers.
\<close>

record webhook_request =
  n_type :: "string option"
  n_data_id :: "string option"
  has_request :: bool
  x_signature :: "string option"
  x_request_id :: "string option"

section \<open>The webhook handlers\<close>

text \<open>
  A block of a handler returns what it threw (\<open>Inl\<close>) or its value (\<open>Inr\<close>), and the new
  state. \<open>or_undefined\<close> is \<^verbatim>\<open>x || undefined\<close> and \<open>or_empty\<close> is \<^verbatim>\<open>x || ""\<close> on strings.
  A field that an update gives as \<^verbatim>\<open>undefined\<close> is left as it is, and an adapter call that
  throws writes nothing and throws an error that is not an APIError.
\<close>

definition or_undefined :: "string option \<Rightarrow> string option" where
  "or_undefined x = (if falsy x then None else x)"

definition or_empty :: "string option \<Rightarrow> string" where
  "or_empty x = (case x of None \<Rightarrow> [] | Some v \<Rightarrow> v)"

definition keep :: "'a option \<Rightarrow> 'a option \<Rightarrow> 'a option" where
  "keep new old = (case new of None \<Rightarrow> old | Some v \<Rightarrow> Some v)"

definition apply_payment_update :: "string \<Rightarrow> payment_update \<Rightarrow> payment_record \<Rightarrow> payment_record" where
  "apply_payment_update pid upd p =
     (if pay_id p = pid
      then p\<lparr>mercadoPagoPaymentId := keep (upd_mercadoPagoPaymentId upd) (mercadoPagoPaymentId p),
             status := keep (upd_status upd) (status p),
             statusDetail := keep (upd_statusDetail upd) (statusDetail p),
             paymentMethodId := keep (upd_paymentMethodId upd) (paymentMethodId p),
             paymentTypeId := keep (upd_paymentTypeId upd) (paymentTypeId p),
             updatedAt := upd_updatedAt upd\<rparr>
      else p)"

definition apply_subscription_update ::
  "string \<Rightarrow> subscription_update \<Rightarrow> subscription_record \<Rightarrow> subscription_record" where
  "apply_subscription_update sid upd r =
     (if sub_id r = sid
      then r\<lparr>sub_status := keep (upd_sub_status upd) (sub_status r),
             reason := keep (upd_reason upd) (reason r),
             nextPaymentDate := keep (upd_nextPaymentDate upd) (nextPaymentDate r),
             lastPaymentDate := keep (upd_lastPaymentDate upd) (lastPaymentDate r),
             summarized := keep (upd_summarized upd) (summarized r),
             sub_updatedAt := upd_sub_updatedAt upd\<rparr>
      else r)"

definition amount_or_zero :: "number option \<Rightarrow> number" where
  "amount_or_zero a = (case a of None \<Rightarrow> Finite 0 | Some x \<Rightarrow> if num_falsy (Some x) then Finite 0 else x)"

subsection \<open>The handler of server.ts\<close>

text \<open>The block \<^verbatim>\<open>if (notification.type === "payment") { ... }\<close>.\<close>

definition process_payment_server ::
  "options \<Rightarrow> environment \<Rightarrow> string \<Rightarrow> plugin_state \<Rightarrow> (exn + unit) \<times> plugin_state" where
  "process_payment_server opts env paymentId s =
     (if paymentId = [] then (Inl (APIError BAD_REQUEST (Some ''Missing payment ID'') None), s)
      else
        (case payment_get env paymentId of
           Inl err \<Rightarrow>
             (Inl (APIError BAD_REQUEST (Some ''Failed to fetch payment details'') None),
              logger Err ''Failed to fetch payment from MP'' (emit (PaymentGet paymentId) s))
         | Inr mpPayment \<Rightarrow>
             let s1 = emit (PaymentGet paymentId) s in
             (case adapter_findOne env of
                Throws e \<Rightarrow> (Inl (Thrown e), s1)
              | Returns \<Rightarrow>
                  (case find (\<lambda>p. mercadoPagoPaymentId p = Some paymentId) (payments s1) of
                     None \<Rightarrow> (Inr (), s1)
                   | Some existingPayment \<Rightarrow>
                       if \<not> validatePaymentAmount (amount existingPayment)
                              (amount_or_zero (transaction_amount mpPayment)) default_tolerance
                       then (Inl (APIError BAD_REQUEST (Some ''Payment amount mismatch'') None),
                             logger Err ''Payment amount mismatch'' s1)
                       else
                         (case adapter_update env of
                            Throws e \<Rightarrow> (Inl (Thrown e), s1)
                          | Returns \<Rightarrow>
                              let upd = \<lparr>upd_mercadoPagoPaymentId = None,
                                         upd_status = mp_status mpPayment,
                                         upd_statusDetail = or_undefined (status_detail mpPayment),
                                         upd_paymentMethodId = or_undefined (payment_method_id mpPayment),
                                         upd_paymentTypeId = or_undefined (payment_type_id mpPayment),
                                         upd_updatedAt = now env\<rparr>;
                                  s2 = emit (PaymentUpdate (pay_id existingPayment) upd)
                                         (s1\<lparr>payments :=
                                              map (apply_payment_update (pay_id existingPayment) upd)
                                                (payments s1)\<rparr>)
                              in (case onPaymentUpdate opts of
                                    None \<Rightarrow> (Inr (), s2)
                                  | Some callback \<Rightarrow>
                                      let s3 = emit (OnPaymentUpdate existingPayment (mp_status mpPayment)
                                                       (or_empty (status_detail mpPayment))) s2
                                      in (case callback existingPayment mpPayment of
                                            Returns \<Rightarrow> (Inr (), s3)
                                          | Throws e \<Rightarrow>
                                              (Inr (), logger Err ''Error in onPaymentUpdate callback'' s3))))))))"

text \<open>
  The block for \<^verbatim>\<open>subscription_preapproval\<close> and \<^verbatim>\<open>subscription_preapproval_plan\<close>.
\<close>

definition process_preapproval_server ::
  "options \<Rightarrow> environment \<Rightarrow> string \<Rightarrow> plugin_state \<Rightarrow> (exn + unit) \<times> plugin_state" where
  "process_preapproval_server opts env preapprovalId s =
     (if preapprovalId = [] then (Inl (APIError BAD_REQUEST (Some ''Missing preapproval ID'') None), s)
      else
        (case preapproval_get env preapprovalId of
           Inl err \<Rightarrow>
             (Inl (APIError BAD_REQUEST (Some ''Failed to fetch subscription details'') None),
              logger Err ''Failed to fetch preapproval from MP'' (emit (PreApprovalGet preapprovalId) s))
         | Inr mpPreapproval \<Rightarrow>
             let s1 = emit (PreApprovalGet preapprovalId) s in
             (case adapter_findOne env of
                Throws e \<Rightarrow> (Inl (Thrown e), s1)
              | Returns \<Rightarrow>
                  (case find (\<lambda>r. mercadoPagoSubscriptionId r = preapprovalId) (subscriptions s1) of
                     None \<Rightarrow> (Inr (), s1)
                   | Some existingSubscription \<Rightarrow>
                       (case adapter_update env of
                          Throws e \<Rightarrow> (Inl (Thrown e), s1)
                        | Returns \<Rightarrow>
                            let upd = \<lparr>upd_sub_status = pre_status mpPreapproval,
                                       upd_reason = or_undefined (pre_reason mpPreapproval),
                                       upd_nextPaymentDate = next_payment_date mpPreapproval,
                                       upd_lastPaymentDate = last_modified mpPreapproval,
                                       upd_summarized = pre_summarized mpPreapproval,
                                       upd_sub_updatedAt = now env\<rparr>;
                                s2 = emit (SubscriptionUpdate (sub_id existingSubscription) upd)
                                       (s1\<lparr>subscriptions :=
                                            map (apply_subscription_update (sub_id existingSubscription) upd)
                                              (subscriptions s1)\<rparr>)
                            in (case onSubscriptionUpdate opts of
                                  None \<Rightarrow> (Inr (), s2)
                                | Some callback \<Rightarrow>
                                    let s3 = emit (OnSubscriptionUpdate existingSubscription
                                                     (pre_status mpPreapproval)
                                                     (or_empty (pre_reason mpPreapproval))) s2
                                    in (case callback existingSubscription mpPreapproval of
                                          Returns \<Rightarrow> (Inr (), s3)
                                        | Throws e \<Rightarrow>
                                            (Inr (), logger Err ''Error in onSubscriptionUpdate callback'' s3))))))))"

text \<open>The block for \<^verbatim>\<open>subscription_authorized_payment\<close>.\<close>

definition process_authorized_payment_server ::
  "options \<Rightarrow> environment \<Rightarrow> string \<Rightarrow> plugin_state \<Rightarrow> (exn + unit) \<times> plugin_state" where
  "process_authorized_payment_server opts env paymentId s =
     (if paymentId = [] then (Inl (APIError BAD_REQUEST (Some ''Missing payment ID'') None), s)
      else
        (case payment_get env paymentId of
           Inl err \<Rightarrow>
             (Inl (APIError BAD_REQUEST (Some ''Failed to fetch payment details'') None),
              logger Err ''Failed to fetch authorized payment from MP'' (emit (PaymentGet paymentId) s))
         | Inr mpPayment \<Rightarrow>
             let s1 = emit (PaymentGet paymentId) s in
             if falsy (mp_external_reference mpPayment) then (Inr (), s1)
             else
               (case adapter_findOne env of
                  Throws e \<Rightarrow> (Inl (Thrown e), s1)
                | Returns \<Rightarrow>
                    (case find (\<lambda>r. Some (sub_id r) = mp_external_reference mpPayment) (subscriptions s1) of
                       None \<Rightarrow> (Inr (), logger Warn ''Subscription not found for authorized payment'' s1)
                     | Some subscription \<Rightarrow>
                         (case onSubscriptionPayment opts of
                            None \<Rightarrow> (Inr (), s1)
                          | Some callback \<Rightarrow>
                              let s2 = emit (OnSubscriptionPayment subscription (mp_status mpPayment)) s1
                              in (case callback subscription mpPayment of
                                    Returns \<Rightarrow> (Inr (), s2)
                                  | Throws e \<Rightarrow>
                                      (Inr (), logger Err ''Error in onSubscriptionPayment callback'' s2)))))))"

text \<open>
  The body of the \<^verbatim>\<open>try\<close>: the three blocks in sequence, each guarded by the
  notification's type; a throw ends the sequence.
\<close>

definition process_server ::
  "options \<Rightarrow> environment \<Rightarrow> string \<Rightarrow> string \<Rightarrow> plugin_state \<Rightarrow> (exn + unit) \<times> plugin_state" where
  "process_server opts env ty dataId s =
     (case (if ty = ''payment'' then process_payment_server opts env dataId s else (Inr (), s)) of
        (Inl e, s1) \<Rightarrow> (Inl e, s1)
      | (Inr u, s1) \<Rightarrow>
          (case (if ty = ''subscription_preapproval'' \<or> ty = ''subscription_preapproval_plan''
                 then process_preapproval_server opts env dataId s1 else (Inr (), s1)) of
             (Inl e, s2) \<Rightarrow> (Inl e, s2)
           | (Inr u, s2) \<Rightarrow>
               (if ty = ''subscription_authorized_payment'' \<or> ty = ''authorized_payment''
                then process_authorized_payment_server opts env dataId s2 else (Inr (), s2))))"

text \<open>
  Everything before the idempotency check: the rate limit, the topic validation, the
  request and the signature. \<open>Inl\<close> is the handler's answer when it ends here, \<open>Inr\<close> the
  notification's type and data id when it goes on.
\<close>

definition intake_server ::
  "options \<Rightarrow> environment \<Rightarrow> webhook_request \<Rightarrow> plugin_state \<Rightarrow>
     ((exn + response) + string \<times> string) \<times> plugin_state" where
  "intake_server opts env req s =
     (case check ''webhook:global'' 1000 (60 * 1000) (now env) (attempts s) of
        (allowed, att) \<Rightarrow>
          let s1 = s\<lparr>attempts := att\<rparr> in
          if \<not> allowed
          then (Inl (Inl (APIError TOO_MANY_REQUESTS (Some ''Webhook rate limit exceeded'') None)), s1)
          else if falsy (n_type req) \<or> \<not> isValidWebhookTopic (or_empty (n_type req))
                  \<or> falsy (n_data_id req)
          then (Inl (Inr Received), logger Warn ''Invalid webhook topic received'' s1)
          else if \<not> has_request req
          then (Inl (Inl (APIError BAD_REQUEST (Some ''Missing request'') None)), s1)
          else if falsy (webhookSecret opts)
          then (Inr (or_empty (n_type req), or_empty (n_data_id req)), s1)
          else if falsy (n_data_id req)
          then (Inl (Inl (APIError BAD_REQUEST (Some ''Missing data.id in webhook payload'') None)), s1)
          else
            (case verifyWebhookSignature (hmac_sha256 env) (x_signature req) (x_request_id req)
                    (or_empty (n_data_id req)) (or_empty (webhookSecret opts)) of
               Inl e \<Rightarrow> (Inl (Inl e), s1)
             | Inr isValid \<Rightarrow>
                 if \<not> isValid
                 then (Inl (Inl (APIError UNAUTHORIZED (Some ''Invalid webhook signature'') None)),
                       logger Err ''Invalid webhook signature'' s1)
                 else (Inr (or_empty (n_type req), or_empty (n_data_id req)), s1)))"

definition webhookId_server :: "string \<Rightarrow> string \<Rightarrow> string" where
  "webhookId_server ty dataId = ''webhook:'' @ dataId @ '':'' @ ty"

definition webhook_server ::
  "options \<Rightarrow> environment \<Rightarrow> webhook_request \<Rightarrow> plugin_state \<Rightarrow> (exn + response) \<times> plugin_state" where
  "webhook_server opts env req s =
     (case intake_server opts env req s of
        (Inl answer, s1) \<Rightarrow> (answer, s1)
      | (Inr (ty, dataId), s1) \<Rightarrow>
          (case idempotency_get (webhookId_server ty dataId) (now env) (store s1) of
             (Some alreadyProcessed, st) \<Rightarrow>
               (Inr Received, logger Info ''Webhook already processed'' (s1\<lparr>store := st\<rparr>))
           | (None, st) \<Rightarrow>
               let s2 = emit (IdempotencySet (webhookId_server ty dataId))
                          (s1\<lparr>store := idempotency_set (webhookId_server ty dataId) Marker day_ms (now env) st\<rparr>)
               in (case process_server opts env ty dataId s2 of
                     (Inr u, s3) \<Rightarrow> (Inr Received, s3)
                   | (Inl e, s3) \<Rightarrow>
                       let s4 = logger Err ''Error processing webhook'' s3 in
                       if is_APIError e then (Inl e, s4) else (Inr Received, s4))))"

subsection \<open>The handler that correlates by external reference\<close>

text \<open>The body of its \<^verbatim>\<open>try\<close>; \<open>Inr\<close> covers both the early returns and the normal end.\<close>

definition process_payment_index ::
  "options \<Rightarrow> environment \<Rightarrow> string \<Rightarrow> plugin_state \<Rightarrow> (exn + unit) \<times> plugin_state" where
  "process_payment_index opts env paymentId s =
     (case payment_get env paymentId of
        Inl err \<Rightarrow> (Inl (Thrown err), emit (PaymentGet paymentId) s)
      | Inr mpPayment \<Rightarrow>
          let s1 = emit (PaymentGet paymentId) s in
          if falsy (mp_external_reference mpPayment)
          then (Inr (), logger Warn ''Payment without external_reference'' s1)
          else
            (case adapter_findOne env of
               Throws e \<Rightarrow> (Inl (Thrown e), s1)
             | Returns \<Rightarrow>
                 (case find (\<lambda>p. externalReference p = mp_external_reference mpPayment) (payments s1) of
                    None \<Rightarrow> (Inr (), logger Warn ''Payment not found by external_reference'' s1)
                  | Some existingPayment \<Rightarrow>
                      if \<not> validatePaymentAmount (amount existingPayment)
                             (amount_or_zero (transaction_amount mpPayment)) default_tolerance
                      then (Inl (APIError BAD_REQUEST (Some ''Payment amount mismatch'') None), s1)
                      else
                        (case adapter_update env of
                           Throws e \<Rightarrow> (Inl (Thrown e), s1)
                         | Returns \<Rightarrow>
                             let upd = \<lparr>upd_mercadoPagoPaymentId = Some paymentId,
                                        upd_status = mp_status mpPayment,
                                        upd_statusDetail = or_undefined (status_detail mpPayment),
                                        upd_paymentMethodId = or_undefined (payment_method_id mpPayment),
                                        upd_paymentTypeId = or_undefined (payment_type_id mpPayment),
                                        upd_updatedAt = now env\<rparr>;
                                 s2 = emit (PaymentUpdate (pay_id existingPayment) upd)
                                        (s1\<lparr>payments :=
                                             map (apply_payment_update (pay_id existingPayment) upd)
                                               (payments s1)\<rparr>)
                             in (case onPaymentUpdate opts of
                                   None \<Rightarrow> (Inr (), s2)
                                 | Some callback \<Rightarrow>
                                     if falsy (mp_status mpPayment) then (Inr (), s2)
                                     else
                                       let s3 = emit (OnPaymentUpdate existingPayment (mp_status mpPayment)
                                                        (or_empty (status_detail mpPayment))) s2
                                       in (case callback existingPayment mpPayment of
                                             Returns \<Rightarrow> (Inr (), s3)
                                           | Throws e \<Rightarrow> (Inl (Thrown e), s3)))))))"

definition intake_index ::
  "options \<Rightarrow> environment \<Rightarrow> webhook_request \<Rightarrow> plugin_state \<Rightarrow>
     ((exn + response) + string \<times> string) \<times> plugin_state" where
  "intake_index opts env req s =
     (case check ''webhook:global'' 1000 (60 * 1000) (now env) (attempts s) of
        (allowed, att) \<Rightarrow>
          let s1 = s\<lparr>attempts := att\<rparr> in
          if \<not> allowed
          then (Inl (Inl (APIError TOO_MANY_REQUESTS (Some ''Webhook rate limit exceeded'') None)), s1)
          else if n_type req \<noteq> Some ''payment'' \<or> falsy (n_data_id req)
          then (Inl (Inr Received), s1)
          else if \<not> has_request req
          then (Inl (Inl (APIError BAD_REQUEST (Some ''Missing request'') None)), s1)
          else if falsy (webhookSecret opts)
          then (Inr (''payment'', or_empty (n_data_id req)), s1)
          else
            (case verifyWebhookSignature (hmac_sha256 env) (x_signature req) (x_request_id req)
                    (or_empty (n_data_id req)) (or_empty (webhookSecret opts)) of
               Inl e \<Rightarrow> (Inl (Inl e), s1)
             | Inr isValid \<Rightarrow>
                 if \<not> isValid
                 then (Inl (Inl (APIError UNAUTHORIZED (Some ''Invalid webhook signature'') None)), s1)
                 else (Inr (''payment'', or_empty (n_data_id req)), s1)))"

definition webhookId_index :: "string \<Rightarrow> string \<Rightarrow> string" where
  "webhookId_index ty dataId = ''mp:webhook:'' @ ty @ '':'' @ dataId"

definition webhook_index ::
  "options \<Rightarrow> environment \<Rightarrow> webhook_request \<Rightarrow> plugin_state \<Rightarrow> (exn + response) \<times> plugin_state" where
  "webhook_index opts env req s =
     (case intake_index opts env req s of
        (Inl answer, s1) \<Rightarrow> (answer, s1)
      | (Inr (ty, dataId), s1) \<Rightarrow>
          (case idempotency_get (webhookId_index ty dataId) (now env) (store s1) of
             (Some alreadyProcessed, st) \<Rightarrow> (Inr Received, s1\<lparr>store := st\<rparr>)
           | (None, st) \<Rightarrow>
               let s2 = emit (IdempotencySet (webhookId_index ty dataId))
                          (s1\<lparr>store := idempotency_set (webhookId_index ty dataId) Marker day_ms (now env) st\<rparr>)
               in (case process_payment_index opts env dataId s2 of
                     (Inr u, s3) \<Rightarrow> (Inr Received, s3)
                   | (Inl e, s3) \<Rightarrow> (Inr Received, logger Err ''Error processing MP webhook'' s3))))"

section \<open>A concrete scenario\<close>




definition plugin_options :: options where
  "plugin_options =
     \<lparr>baseUrl = Some ''https://mysite.com'', webhookSecret = Some ''secret'',
      trustedOrigins = None,
      onPaymentUpdate = Some (\<lambda>p mp. Returns),
      onSubscriptionUpdate = None, onSubscriptionPayment = None\<rparr>"

definition approved_payment :: mp_payment where
  "approved_payment =
     \<lparr>mp_status = Some ''approved'', status_detail = Some ''accredited'',
      payment_method_id = Some ''visa'', payment_type_id = Some ''credit_card'',
      transaction_amount = Some (Finite 100), mp_external_reference = Some ''ref_1''\<rparr>"

definition network_error :: error_object where
  "network_error = \<lparr>err_status = None, err_code = None, err_message = Some ''fetch failed'', err_cause = None\<rparr>"

definition env_approved :: "int \<Rightarrow> environment" where
  "env_approved t =
     \<lparr>now = t, generateId = (\<lambda>k. ''id_'' @ string_of_nat k), adapterId = ''row_1'',
      payment_get = (\<lambda>i. Inr approved_payment),
      preapproval_get = (\<lambda>i. Inr \<lparr>pre_status = Some ''authorized'', pre_reason = None,
                                   next_payment_date = None, last_modified = None,
                                   pre_summarized = None\<rparr>),
      customer_create = (\<lambda>e. Inr ''mp_cust_123''),
      preference_create = (\<lambda>b. Inr \<lparr>pref_id = ''pref_123'', init_point = ''https://mp.com/checkout/123''\<rparr>),
      adapter_findOne = Returns, adapter_update = Returns,
      contextBaseURL = ''https://mysite.com'', hmac_sha256 = sample_hmac,
      parse_url = (\<lambda>u. None), production = False\<rparr>"

definition env_tampered :: "int \<Rightarrow> environment" where
  "env_tampered t = (env_approved t)\<lparr>payment_get := (\<lambda>i. Inr (approved_payment\<lparr>transaction_amount := Some (Finite 150)\<rparr>))\<rparr>"

definition env_cent :: "int \<Rightarrow> environment" where
  "env_cent t =
     (env_approved t)\<lparr>payment_get :=
        (\<lambda>i. Inr (approved_payment\<lparr>transaction_amount := Some (double_of (10001 / 100))\<rparr>))\<rparr>"

definition env_unreachable :: "int \<Rightarrow> environment" where
  "env_unreachable t =
     (env_approved t)\<lparr>payment_get := (\<lambda>i. Inl network_error),
                       preference_create := (\<lambda>b. Inl network_error)\<rparr>"


section \<open>Both handlers at once\<close>

text \<open>
  The repository holds two webhook handlers: the one of \<^verbatim>\<open>server.ts\<close>, which finds the
  payment by the provider's payment id, and the one that finds it by the external
  reference. The properties below are stated for either.
\<close>

datatype handler = ServerTs | ExternalRef



fun process ::
  "handler \<Rightarrow> options \<Rightarrow> environment \<Rightarrow> string \<Rightarrow> string \<Rightarrow> plugin_state \<Rightarrow> (exn + unit) \<times> plugin_state" where
  "process ServerTs opts env ty dataId = process_server opts env ty dataId"
| "process ExternalRef opts env ty dataId = process_payment_index opts env dataId"

fun webhook ::
  "handler \<Rightarrow> options \<Rightarrow> environment \<Rightarrow> webhook_request \<Rightarrow> plugin_state \<Rightarrow> (exn + response) \<times> plugin_state" where
  "webhook ServerTs = webhook_server"
| "webhook ExternalRef = webhook_index"





text \<open>The events a run added to the trace.\<close>

definition added :: "plugin_state \<Rightarrow> plugin_state \<Rightarrow> event list" where
  "added s s' = drop (length (events s)) (events s')"





fun answer :: "handler \<Rightarrow> (exn + unit) \<times> plugin_state \<Rightarrow> (exn + response) \<times> plugin_state" where
  "answer h (Inr u, s) = (Inr Received, s)"
| "answer ServerTs (Inl e, s) =
     (if is_APIError e then Inl e else Inr Received, logger Err ''Error processing webhook'' s)"
| "answer ExternalRef (Inl e, s) = (Inr Received, logger Err ''Error processing MP webhook'' s)"
















section \<open>The creation flow\<close>

text \<open>
  A creation request: the session (the user's id and e-mail address, when there is one)
  and the validated body. The redirect URLs are \<^verbatim>\<open>successUrl\<close>, \<^verbatim>\<open>failureUrl\<close> and
  \<^verbatim>\<open>pendingUrl\<close> in \<^verbatim>\<open>server.ts\<close>, and \<^verbatim>\<open>back_urls\<close> in the other handler, which has no
  marketplace configuration.
\<close>

record marketplace_config =
  collectorId :: string
  applicationFee :: "number option"
  applicationFeePercentage :: "number option"

record create_request =
  session :: "(string \<times> string) option"
  cp_items :: "item list"
  cp_metadata :: "(string \<times> json) list option"
  cp_marketplace :: "marketplace_config option"
  successUrl :: "string option"
  failureUrl :: "string option"
  pendingUrl :: "string option"
  idempotencyKey :: "string option"

text \<open>
  \<open>obj_set\<close>: a property written into an object literal after a spread; a key that is
  already there keeps its place and takes the new value.
\<close>

fun obj_set :: "string \<Rightarrow> json \<Rightarrow> (string \<times> json) list \<Rightarrow> (string \<times> json) list" where
  "obj_set k v [] = [(k, v)]"
| "obj_set k v ((k', v') # entries) =
     (if k' = k then (k, v) # entries else (k', v') # obj_set k v entries)"

definition totalAmount :: "item list \<Rightarrow> number" where
  "totalAmount its = foldl (\<lambda>sum i. num_add sum (num_mul (unitPrice i) (quantity i))) (Finite 0) its"

definition first_currency :: "item list \<Rightarrow> string" where
  "first_currency its =
     (case its of [] \<Rightarrow> ''ARS'' | i # rest \<Rightarrow> if currencyId i = [] then ''ARS'' else currencyId i)"

definition or_else :: "string option \<Rightarrow> string \<Rightarrow> string" where
  "or_else x d = (if falsy x then d else or_empty x)"

text \<open>
  The steps both creation handlers start with, after the session check: the rate limit
  per user and the idempotency check. \<open>Inl\<close> ends the request (an error or the cached
  result), \<open>Inr\<close> goes on.
\<close>

definition create_gate ::
  "environment \<Rightarrow> string \<Rightarrow> string option \<Rightarrow> plugin_state \<Rightarrow>
     ((exn + response) + unit) \<times> plugin_state" where
  "create_gate env uid key s =
     (case check (''payment:create:'' @ uid) 10 (60 * 1000) (now env) (attempts s) of
        (allowed, att) \<Rightarrow>
          let s1 = s\<lparr>attempts := att\<rparr> in
          if \<not> allowed
          then (Inl (Inl (APIError TOO_MANY_REQUESTS
                  (Some ''Too many payment creation attempts. Please try again later.'') None)), s1)
          else if falsy key then (Inr (), s1)
          else if \<not> validateIdempotencyKey (or_empty key)
          then (Inl (Inl (APIError BAD_REQUEST (Some ''Invalid idempotency key format'') None)), s1)
          else
            (case idempotency_get (or_empty key) (now env) (store s1) of
               (Some cachedResult, st) \<Rightarrow> (Inl (Inr (Replayed cachedResult)), s1\<lparr>store := st\<rparr>)
             | (None, st) \<Rightarrow> (Inr (), s1\<lparr>store := st\<rparr>)))"

text \<open>The last step of both: the result goes into the idempotency cache and is returned.\<close>

definition create_finish ::
  "environment \<Rightarrow> string option \<Rightarrow> create_result \<Rightarrow> plugin_state \<Rightarrow>
     (exn + response) \<times> plugin_state" where
  "create_finish env key res s =
     (if falsy key then (Inr (Fresh res), s)
      else (Inr (Fresh res),
            emit (IdempotencySet (or_empty key))
              (s\<lparr>store := idempotency_set (or_empty key) (Result res) day_ms (now env) (store s)\<rparr>)))"

subsection \<open>createPayment of server.ts\<close>

text \<open>
  \<open>ensure_customer\<close>: the local customer of the user, created at the provider and stored
  on first use. \<open>k\<close> counts the ids generated so far in the request.
\<close>

definition ensure_customer ::
  "environment \<Rightarrow> string \<Rightarrow> string \<Rightarrow> plugin_state \<Rightarrow> (exn + customer_record \<times> nat) \<times> plugin_state" where
  "ensure_customer env uid mail s =
     (case find (\<lambda>c. cust_userId c = uid) (customers s) of
        Some c \<Rightarrow> (Inr (c, 0), s)
      | None \<Rightarrow>
          (case customer_create env mail of
             Inl err \<Rightarrow> (Inl (handleMercadoPagoError err), emit (CustomerCreate mail) s)
           | Inr mpId \<Rightarrow>
               let c = \<lparr>cust_id = generateId env 0, cust_userId = uid, mercadoPagoId = mpId,
                        email = mail, cust_createdAt = now env, cust_updatedAt = now env\<rparr>;
                   s1 = emit (CustomerInsert c) (emit (GenerateId (generateId env 0))
                          (emit (CustomerCreate mail) s))
               in (Inr (c, 1), s1\<lparr>customers := customers s1 @ [c]\<rparr>)))"

definition percentage_fee :: "marketplace_config \<Rightarrow> number \<Rightarrow> number" where
  "percentage_fee m tot =
     (case applicationFeePercentage m of
        None \<Rightarrow> Finite 0
      | Some pc \<Rightarrow> if num_falsy (Some pc) then Finite 0 else num_div (num_mul tot pc) (Finite 100))"

definition fee_amount :: "marketplace_config option \<Rightarrow> number \<Rightarrow> number" where
  "fee_amount mk tot =
     (case mk of
        None \<Rightarrow> Finite 0
      | Some m \<Rightarrow>
          (case applicationFee m of
             None \<Rightarrow> percentage_fee m tot
           | Some f \<Rightarrow> if num_falsy (Some f) then percentage_fee m tot else f))"

definition preferenceBody_server ::
  "options \<Rightarrow> environment \<Rightarrow> create_request \<Rightarrow> string \<Rightarrow> string \<Rightarrow> customer_record \<Rightarrow> preference_body" where
  "preferenceBody_server opts env req uid mail c =
     (let base = or_else (baseUrl opts) (contextBaseURL env);
          sanitizedMetadata = (case cp_metadata req of None \<Rightarrow> [] | Some md \<Rightarrow> sanitizeMetadata md)
      in \<lparr>pb_items = cp_items req,
          payer_email = Some mail,
          back_urls = (or_else (successUrl req) (base @ ''/payment/success''),
                       or_else (failureUrl req) (base @ ''/payment/failure''),
                       or_else (pendingUrl req) (base @ ''/payment/pending'')),
          auto_return = None,
          notification_url = Some (base @ ''/api/auth/mercado-pago/webhook''),
          external_reference = None,
          pb_metadata = obj_set ''customerId'' (JStr (cust_id c))
                          (obj_set ''userId'' (JStr uid) sanitizedMetadata),
          marketplace = map_option collectorId (cp_marketplace req),
          marketplace_fee = map_option (\<lambda>m. fee_amount (cp_marketplace req) (totalAmount (cp_items req)))
                              (cp_marketplace req),
          expires = True,
          expiration_date_from = Some (now env),
          expiration_date_to = Some (now env + 30 * 24 * 60 * 60 * 1000)\<rparr>)"

definition untrusted_url :: "options \<Rightarrow> environment \<Rightarrow> create_request \<Rightarrow> string option" where
  "untrusted_url opts env req =
     (case trustedOrigins opts of
        None \<Rightarrow> None
      | Some origins \<Rightarrow>
          find (\<lambda>u. \<not> validateCallbackUrl (parse_url env) (production env) u origins)
            (map or_empty (filter (\<lambda>u. \<not> falsy u) [successUrl req, failureUrl req, pendingUrl req])))"

text \<open>
  The part after the provider call: the payment record, the split record when a
  marketplace is configured, the idempotency cache and the response.
\<close>

definition store_payment_server ::
  "environment \<Rightarrow> create_request \<Rightarrow> string \<Rightarrow> nat \<Rightarrow> preference \<Rightarrow> plugin_state \<Rightarrow>
     (exn + response) \<times> plugin_state" where
  "store_payment_server env req uid k pref s3 =
     (let tot = totalAmount (cp_items req);
          fee = fee_amount (cp_marketplace req) tot;
          rec = \<lparr>pay_id = generateId env k, externalReference = None,
                 userId = uid,
                 mercadoPagoPaymentId = Some (pref_id pref),
                 preferenceId = pref_id pref,
                 status = Some ''pending'', statusDetail = None,
                 amount = tot, currency = first_currency (cp_items req),
                 paymentMethodId = None, paymentTypeId = None,
                 metadata = (case cp_metadata req of None \<Rightarrow> []
                             | Some md \<Rightarrow> sanitizeMetadata md),
                 createdAt = now env, updatedAt = now env\<rparr>;
          s4 = emit (PaymentInsert rec) (emit (GenerateId (generateId env k)) s3);
          s5 = s4\<lparr>payments := payments s4 @ [rec]\<rparr>;
          s6 = (case cp_marketplace req of
                  None \<Rightarrow> s5
                | Some m \<Rightarrow>
                    let sp = \<lparr>split_id = generateId env (Suc k),
                              split_paymentId = pay_id rec,
                              split_collectorId = collectorId m,
                              split_collectorEmail = [],
                              split_applicationFeeAmount = fee,
                              split_applicationFeePercentage = applicationFeePercentage m,
                              split_netAmount = num_sub tot fee,
                              split_createdAt = now env\<rparr>;
                        s5' = emit (SplitInsert sp)
                                (emit (GenerateId (generateId env (Suc k))) s5)
                    in s5'\<lparr>splits := splits s5' @ [sp]\<rparr>)
      in create_finish env (idempotencyKey req)
           \<lparr>checkoutUrl = init_point pref, res_preferenceId = pref_id pref,
            payment = rec\<rparr> s6)"

definition createPayment_server ::
  "options \<Rightarrow> environment \<Rightarrow> create_request \<Rightarrow> plugin_state \<Rightarrow> (exn + response) \<times> plugin_state" where
  "createPayment_server opts env req s =
     (case session req of
        None \<Rightarrow> (Inl (APIError UNAUTHORIZED None None), s)
      | Some (uid, mail) \<Rightarrow>
          (case create_gate env uid (idempotencyKey req) s of
             (Inl early, s1) \<Rightarrow> (early, s1)
           | (Inr u, s1) \<Rightarrow>
               (case untrusted_url opts env req of
                  Some url \<Rightarrow>
                    (Inl (APIError FORBIDDEN (Some (''URL '' @ url @ '' is not in trusted origins'')) None), s1)
                | None \<Rightarrow>
                    if list_ex (\<lambda>i. \<not> ValidationRules_currency (currencyId i)) (cp_items req)
                    then (Inl (APIError BAD_REQUEST (Some ''Invalid currency code'') None), s1)
                    else
                      (case ensure_customer env uid mail s1 of
                         (Inl e, s2) \<Rightarrow> (Inl e, s2)
                       | (Inr (c, k), s2) \<Rightarrow>
                           if \<not> ValidationRules_amount (totalAmount (cp_items req))
                           then (Inl (APIError BAD_REQUEST (Some ''Invalid payment amount'') None), s2)
                           else if cp_marketplace req \<noteq> None
                                   \<and> num_le (totalAmount (cp_items req))
                                         (fee_amount (cp_marketplace req) (totalAmount (cp_items req)))
                           then (Inl (APIError BAD_REQUEST
                                   (Some ''Application fee cannot exceed total amount'') None), s2)
                           else
                             let body = preferenceBody_server opts env req uid mail c;
                                 s3 = emit (PreferenceCreate body) s2
                             in (case preference_create env body of
                                   Inl err \<Rightarrow> (Inl (handleMercadoPagoError err), s3)
                                 | Inr pref \<Rightarrow> store_payment_server env req uid k pref s3)))))"

subsection \<open>createPayment of the handler that correlates by external reference\<close>

definition preferenceBody_index ::
  "options \<Rightarrow> environment \<Rightarrow> create_request \<Rightarrow> string \<Rightarrow> string \<Rightarrow> preference_body" where
  "preferenceBody_index opts env req uid externalRef =
     (let base = or_else (baseUrl opts) (contextBaseURL env);
          sanitizedMetadata = (case cp_metadata req of None \<Rightarrow> [] | Some md \<Rightarrow> sanitizeMetadata md)
      in \<lparr>pb_items = cp_items req,
          payer_email = None,
          back_urls = (or_else (successUrl req) (base @ ''/payments/one-time?status=success''),
                       or_else (failureUrl req) (base @ ''/payments/one-time?status=failure''),
                       or_else (pendingUrl req) (base @ ''/payments/one-time?status=pending'')),
          auto_return = Some ''approved'',
          notification_url = None,
          external_reference = Some externalRef,
          pb_metadata = obj_set ''userId'' (JStr uid) sanitizedMetadata,
          marketplace = None,
          marketplace_fee = None,
          expires = True,
          expiration_date_from = None,
          expiration_date_to = None\<rparr>)"

definition store_payment_index ::
  "environment \<Rightarrow> create_request \<Rightarrow> string \<Rightarrow> string \<Rightarrow> preference \<Rightarrow> plugin_state \<Rightarrow>
     (exn + response) \<times> plugin_state" where
  "store_payment_index env req uid externalRef pref s2 =
     (let rec = \<lparr>pay_id = adapterId env, externalReference = Some externalRef,
                 userId = uid, mercadoPagoPaymentId = None,
                 preferenceId = pref_id pref,
                 status = Some ''pending'', statusDetail = None,
                 amount = totalAmount (cp_items req),
                 currency = first_currency (cp_items req),
                 paymentMethodId = None, paymentTypeId = None,
                 metadata = obj_set ''preferenceId'' (JStr (pref_id pref))
                              (case cp_metadata req of None \<Rightarrow> []
                               | Some md \<Rightarrow> sanitizeMetadata md),
                 createdAt = now env, updatedAt = now env\<rparr>;
          s3 = emit (PaymentInsert rec) s2
      in create_finish env (idempotencyKey req)
           \<lparr>checkoutUrl = init_point pref, res_preferenceId = pref_id pref,
            payment = rec\<rparr>
           (s3\<lparr>payments := payments s3 @ [rec]\<rparr>))"

definition createPayment_index ::
  "options \<Rightarrow> environment \<Rightarrow> create_request \<Rightarrow> plugin_state \<Rightarrow> (exn + response) \<times> plugin_state" where
  "createPayment_index opts env req s =
     (case session req of
        None \<Rightarrow> (Inl (APIError UNAUTHORIZED None None), s)
      | Some (uid, mail) \<Rightarrow>
          (case create_gate env uid (idempotencyKey req) s of
             (Inl early, s1) \<Rightarrow> (early, s1)
           | (Inr u, s1) \<Rightarrow>
               if list_ex (\<lambda>i. \<not> ValidationRules_currency (currencyId i)) (cp_items req)
               then (Inl (APIError BAD_REQUEST (Some ''Invalid currency code'') None), s1)
               else if \<not> ValidationRules_amount (totalAmount (cp_items req))
               then (Inl (APIError BAD_REQUEST (Some ''Invalid payment amount'') None), s1)
               else
                 let externalRef = generateId env 0;
                     body = preferenceBody_index opts env req uid externalRef;
                     s2 = emit (PreferenceCreate body) (emit (GenerateId externalRef) s1)
                 in (case preference_create env body of
                       Inl err \<Rightarrow> (Inl (Thrown err), s2)
                     | Inr pref \<Rightarrow> store_payment_index env req uid externalRef pref s2)))"

text \<open>Either creation handler.\<close>

fun createPayment ::
  "handler \<Rightarrow> options \<Rightarrow> environment \<Rightarrow> create_request \<Rightarrow> plugin_state \<Rightarrow>
     (exn + response) \<times> plugin_state" where
  "createPayment ServerTs = createPayment_server"
| "createPayment ExternalRef = createPayment_index"

text \<open>What a trace says about the creation flow.\<close>

fun preference_bodies :: "event list \<Rightarrow> preference_body list" where
  "preference_bodies [] = []"
| "preference_bodies (PreferenceCreate b # es) = b # preference_bodies es"
| "preference_bodies (e # es) = preference_bodies es"

fun inserted_payments :: "event list \<Rightarrow> payment_record list" where
  "inserted_payments [] = []"
| "inserted_payments (PaymentInsert p # es) = p # inserted_payments es"
| "inserted_payments (e # es) = inserted_payments es"

fun generated_ids :: "event list \<Rightarrow> string list" where
  "generated_ids [] = []"
| "generated_ids (GenerateId i # es) = i # generated_ids es"
| "generated_ids (e # es) = generated_ids es"

text \<open>The request of the scenario: one item of 100 ARS, by the user \<open>u1\<close>.\<close>

definition one_item_request :: create_request where
  "one_item_request =
     \<lparr>session = Some (''u1'', ''u1@example.com''),
      cp_items = [\<lparr>item_id = ''item_1'', title = ''Test Item'', quantity = Finite 1, unitPrice = Finite 100,
                   currencyId = ''ARS''\<rparr>],
      cp_metadata = None, cp_marketplace = None,
      successUrl = Some ''https://mysite.com/success'', failureUrl = None, pendingUrl = None,
      idempotencyKey = None\<rparr>"

definition empty_state :: plugin_state where
  "empty_state =
     \<lparr>attempts = Map.empty, store = Map.empty, customers = [], payments = [],
      subscriptions = [], splits = [], events = []\<rparr>"

text \<open>
  A value is clean when no object in it, at any depth, has one of the three keys, and no
  string in it is longer than 5000 characters.
\<close>

fun clean_entries :: "(string \<times> json) list \<Rightarrow> bool"
  and clean_values :: "json list \<Rightarrow> bool"
  and clean :: "json \<Rightarrow> bool"
where
  "clean_entries [] = True"
| "clean_entries ((key, v) # entries) =
     (key \<noteq> ''__proto__'' \<and> key \<noteq> ''constructor'' \<and> key \<noteq> ''prototype''
      \<and> clean v \<and> clean_entries entries)"
| "clean_values [] = True"
| "clean_values (v # vs) = (clean v \<and> clean_values vs)"
| "clean (JStr s) = (length s \<le> 5000)"
| "clean (JObj entries) = clean_entries entries"
| "clean (JArr vs) = clean_values vs"
| "clean JNull = True"
| "clean (JBool b) = True"
| "clean (JNum x) = True"

section \<open>Properties\<close>

subsection \<open>Numbers\<close>

text \<open>
  The default tolerance is the double \<open>5764607523034235 * 2^-59\<close>, a little above 1/100.
  Some comparisons, evaluated: 100 against 100.01 (the double nearest to it) is a mismatch,
  because the computed difference is above the tolerance; 0.02 against 0.01 is not, because
  the computed difference is the tolerance itself.
\<close>

lemma default_tolerance_value: "default_tolerance = Finite (5764607523034235 / 2 ^ 59)"
  by (simp add: default_tolerance_def double_of_def halve.simps double_up.simps ties_to_even_def)

lemma double_of_examples:
  "double_of 100 = Finite 100" "double_of (- 50) = Finite (- 50)"
  "double_of (10001 / 100) = Finite (7037578105208177 / 2 ^ 46)"
  "double_of (2 / 100) = Finite (5764607523034235 / 2 ^ 58)"
  by (simp_all add: double_of_def halve.simps double_up.simps ties_to_even_def)


text \<open>
  The comparison in exact terms. For finite amounts, \<open>validatePaymentAmount\<close> with the
  default tolerance accepts exactly the pairs whose exact difference is below
  \<open>(5764607523034235 + 1/2) * 2^-59\<close>, the midpoint between the tolerance and the next
  double: a larger difference is rounded to a double above the tolerance.
\<close>

lemma ties_to_even_bounds: "\<lfloor>x\<rfloor> \<le> ties_to_even x" "ties_to_even x \<le> \<lfloor>x\<rfloor> + 1"
  by (simp_all add: ties_to_even_def Let_def)

lemma ties_to_even_ge:
  assumes "of_int n \<le> x"
  shows "n \<le> ties_to_even x"
proof -
  have "n \<le> \<lfloor>x\<rfloor>" using assms by (simp add: le_floor_iff)
  with ties_to_even_bounds(1) [of x] show ?thesis by linarith
qed

lemma ties_to_even_int: "ties_to_even (of_int n) = n"
  by (simp add: ties_to_even_def)

lemma ties_to_even_le:
  assumes "x \<le> of_int n"
  shows "ties_to_even x \<le> n"
proof (cases "x = of_int n")
  case True
  then show ?thesis by (simp add: ties_to_even_int)
next
  case False
  with assms have "x < of_int n" by simp
  then have "\<lfloor>x\<rfloor> < n" by (simp add: floor_less_iff)
  with ties_to_even_bounds(2) [of x] show ?thesis by linarith
qed

lemma ties_to_even_odd:
  assumes "odd n"
  shows "ties_to_even x \<le> n \<longleftrightarrow> x < of_int n + 1 / 2"
proof
  assume le: "ties_to_even x \<le> n"
  show "x < of_int n + 1 / 2"
  proof (rule ccontr)
    assume "\<not> x < of_int n + 1 / 2"
    then have ge: "of_int n + 1 / 2 \<le> x" by simp
    then have "of_int n \<le> x" by linarith
    then have f: "n \<le> \<lfloor>x\<rfloor>" by (simp add: le_floor_iff)
    show False
    proof (cases "\<lfloor>x\<rfloor> = n")
      case True
      then have r: "1 / 2 \<le> x - of_int \<lfloor>x\<rfloor>" using ge by simp
      have "ties_to_even x = n + 1"
        using r True assms by (auto simp: ties_to_even_def Let_def)
      with le show False by simp
    next
      case False
      with f have "n + 1 \<le> \<lfloor>x\<rfloor>" by simp
      with ties_to_even_bounds(1) [of x] le show False by linarith
    qed
  qed
next
  assume lt: "x < of_int n + 1 / 2"
  then have "x < of_int (n + 1)" by simp
  then have "\<lfloor>x\<rfloor> < n + 1" by (subst floor_less_iff)
  then have f: "\<lfloor>x\<rfloor> \<le> n" by simp
  show "ties_to_even x \<le> n"
  proof (cases "\<lfloor>x\<rfloor> = n")
    case True
    then have "x - of_int \<lfloor>x\<rfloor> < 1 / 2" using lt by simp
    then show ?thesis using True by (simp add: ties_to_even_def Let_def)
  next
    case False
    with f have "\<lfloor>x\<rfloor> + 1 \<le> n" by simp
    with ties_to_even_bounds(2) [of x] show ?thesis by linarith
  qed
qed

lemma halve_small: "x < 2 ^ 53 \<Longrightarrow> halve x e = (x, e)"
  by (simp add: halve.simps)

lemma halve_large: "halve x e = (y, e') \<Longrightarrow> 2 ^ 53 \<le> x \<Longrightarrow> 2 ^ 52 \<le> y \<and> e \<le> e'"
proof (induction x e rule: halve.induct)
  case (1 x e)
  have step: "halve x e = halve (x / 2) (e + 1)"
    using "1.prems"(2) by (simp add: halve.simps [of x e])
  show ?case
  proof (cases "2 ^ 53 \<le> x / 2")
    case True
    from "1.IH" [OF "1.prems"(2) _ True] "1.prems"(1) step show ?thesis by simp
  next
    case False
    then have "halve (x / 2) (e + 1) = (x / 2, e + 1)" by (simp add: halve.simps)
    with "1.prems" step show ?thesis by simp
  qed
qed

lemma double_up_steps:
  "2 ^ 52 \<le> x * 2 ^ k \<Longrightarrow> x * 2 ^ k < 2 ^ 53 \<Longrightarrow> - 1074 \<le> e - int k \<Longrightarrow>
   double_up x e = (x * 2 ^ k, e - int k)"
proof (induction k arbitrary: x e)
  case 0
  then show ?case by (simp add: double_up.simps)
next
  case (Suc k)
  have pos: "0 < x"
  proof (rule ccontr)
    assume "\<not> 0 < x"
    then have "x * 2 ^ Suc k \<le> 0" by (simp add: mult_le_0_iff)
    with Suc.prems(1) show False by simp
  qed
  have "(1::real) \<le> 2 ^ k" by simp
  then have "x * 1 \<le> x * 2 ^ k" using pos by (intro mult_left_mono) simp_all
  then have "x * 2 \<le> x * 2 ^ Suc k" by simp
  with Suc.prems(2) have small: "x < 2 ^ 52" by simp
  have e: "- 1074 < e" using Suc.prems(3) by simp
  have step: "double_up x e = double_up (x * 2) (e - 1)"
    using small e by (simp add: double_up.simps [of x e])
  have "double_up (x * 2) (e - 1) = (x * 2 * 2 ^ k, e - 1 - int k)"
    using Suc.prems by (intro Suc.IH) (simp_all add: mult.assoc)
  then show ?case using step by (simp add: mult.assoc)
qed

lemma double_up_inv:
  "double_up x e = (z, e') \<Longrightarrow> 0 < x \<Longrightarrow>
     z * 2 powi e' = x * 2 powi e \<and> e' \<le> e \<and> (2 ^ 52 \<le> z \<or> e' \<le> - 1074)
     \<and> (x < 2 ^ 53 \<longrightarrow> z < 2 ^ 53) \<and> 0 < z"
proof (induction x e rule: double_up.induct)
  case (1 x e)
  show ?case
  proof (cases "x < 2 ^ 52 \<and> - 1074 < e")
    case True
    then have step: "double_up x e = double_up (x * 2) (e - 1)"
      by (simp add: double_up.simps [of x e])
    have "z * 2 powi e' = x * 2 * 2 powi (e - 1) \<and> e' \<le> e - 1 \<and> (2 ^ 52 \<le> z \<or> e' \<le> - 1074)
     \<and> (x * 2 < 2 ^ 53 \<longrightarrow> z < 2 ^ 53) \<and> 0 < z"
      using "1.prems" step True by (intro "1.IH") simp_all
    moreover have "x * 2 * 2 powi (e - 1) = x * 2 powi e"
      by (simp add: power_int_diff)
    ultimately show ?thesis using True by simp
  next
    case False
    then have "double_up x e = (x, e)" by (subst double_up.simps) auto
    with "1.prems" False show ?thesis by auto
  qed
qed


lemma power_int_nat: "0 \<le> k \<Longrightarrow> (2::real) powi k = of_int (2 ^ nat k)"
  by (simp add: power_int_def)

lemma scaled_integer:
  assumes "e' \<le> - int j"
  shows "\<exists>N::int. of_int N * (2::real) powi e' = 1 / 2 ^ j"
proof -
  have k: "0 \<le> - e' - int j" using assms by simp
  have "(2::real) powi (- e' - int j) * 2 powi e' = 2 powi (- int j)"
    by (subst power_int_add [symmetric]) simp_all
  also have "\<dots> = 1 / 2 ^ j" by (simp add: power_int_minus field_simps)
  finally show ?thesis unfolding power_int_nat [OF k] by blast
qed

lemma double_of_positive:
  assumes "0 < x" and "x < 2 ^ 53"
  shows "\<exists>z e'. double_of x = Finite (of_int (ties_to_even z) * 2 powi e')
           \<and> z * 2 powi e' = x \<and> 0 < z \<and> (2 ^ 52 \<le> z \<or> e' \<le> - 1074)
           \<and> double_up x 0 = (z, e')"
proof -
  obtain z e' where up: "double_up x 0 = (z, e')" by (cases "double_up x 0")
  from double_up_inv [OF up assms(1)] assms(2) have
    inv: "z * 2 powi e' = x" "e' \<le> 0" "2 ^ 52 \<le> z \<or> e' \<le> - 1074" "z < 2 ^ 53" "0 < z"
    by simp_all
  have t: "ties_to_even z \<le> 2 ^ 53"
    using inv(4) by (intro ties_to_even_le) simp
  have t0: "0 \<le> ties_to_even z"
    using inv(5) by (intro ties_to_even_ge) simp
  have u: "(2::real) powi e' \<le> 1"
  proof -
    have "(2::real) powi e' = 1 / 2 ^ nat (- e')"
      using inv(2) by (simp add: power_int_def field_simps)
    also have "\<dots> \<le> 1" by simp
    finally show ?thesis .
  qed
  have u0: "0 < (2::real) powi e'" by simp
  have "of_int (ties_to_even z) * (2::real) powi e' \<le> 2 ^ 53 * 1"
    using t t0 u u0 by (intro mult_mono) simp_all
  then have small: "\<not> 2 ^ 1024 \<le> of_int (ties_to_even z) * (2::real) powi e'" by simp
  have "double_of x = Finite (of_int (ties_to_even z) * 2 powi e')"
    using assms small by (simp add: double_of_def halve_small up Let_def)
  with inv up show ?thesis by blast
qed


lemma double_of_large:
  assumes "2 ^ 53 \<le> x"
  shows "\<not> num_le (double_of x) (Finite t) \<or> 2 ^ 52 \<le> t"
proof -
  obtain y e where h: "halve x 0 = (y, e)" by (cases "halve x 0")
  from halve_large [OF h assms] have y: "2 ^ 52 \<le> y" and e: "0 \<le> e" by simp_all
  have up: "double_up y e = (y, e)" using y by (subst double_up.simps) simp
  have "(2::int) ^ 52 \<le> ties_to_even y" using y by (intro ties_to_even_ge) simp
  then have t: "(2::real) ^ 52 \<le> of_int (ties_to_even y)"
    by (metis of_int_le_iff of_int_numeral of_int_power)
  have u: "1 \<le> (2::real) powi e" using e by (simp add: power_int_def)
  have "2 ^ 52 * 1 \<le> of_int (ties_to_even y) * (2::real) powi e"
    using t u by (intro mult_mono) simp_all
  then have v: "2 ^ 52 \<le> of_int (ties_to_even y) * (2::real) powi e" by simp
  have x: "x \<noteq> 0" "\<not> x < 0" "\<bar>x\<bar> = x" using assms by simp_all
  show ?thesis
    using v by (auto simp: double_of_def x h up Let_def)
qed

lemma double_of_le_tolerance:
  assumes "0 < x"
  shows "num_le (double_of x) default_tolerance \<longleftrightarrow> x < (5764607523034235 + 1 / 2) / 2 ^ 59"
proof -
  let ?M = "5764607523034235::int"
  let ?T = "(5764607523034235 + 1 / 2) / 2 ^ 59 :: real"
  consider (large) "2 ^ 53 \<le> x" | (above) "1 / 2 ^ 6 \<le> x" "x < 2 ^ 53"
    | (binade) "1 / 2 ^ 7 \<le> x" "x < 1 / 2 ^ 6" | (below) "x < 1 / 2 ^ 7"
    by linarith
  then show ?thesis
  proof cases
    case large
    from double_of_large [OF large, of "5764607523034235 / 2 ^ 59"]
    have "\<not> num_le (double_of x) default_tolerance"
      by (simp add: default_tolerance_value)
    moreover have "\<not> x < ?T" using large by simp
    ultimately show ?thesis by simp
  next
    case above
    from double_of_positive [OF assms above(2)] obtain z e' where
      d: "double_of x = Finite (of_int (ties_to_even z) * 2 powi e')"
      and zx: "z * 2 powi e' = x" and z0: "0 < z" and n: "2 ^ 52 \<le> z \<or> e' \<le> - 1074"
      by blast
    have u0: "0 < (2::real) powi e'" by simp
    have "5764607523034235 / 2 ^ 59 < of_int (ties_to_even z) * (2::real) powi e'"
      using n
    proof
      assume "e' \<le> - 1074"
      then have "e' \<le> - int 6" by simp
      from scaled_integer [OF this] obtain N :: int where N: "of_int N * (2::real) powi e' = 1 / 2 ^ 6"
        by blast
      have "of_int N * (2::real) powi e' \<le> z * 2 powi e'" using N zx above(1) by simp
      then have "of_int N \<le> z" using u0 by (simp only: mult_le_cancel_right_pos)
      then have "N \<le> ties_to_even z" by (rule ties_to_even_ge)
      then have "of_int N * (2::real) powi e' \<le> of_int (ties_to_even z) * 2 powi e'"
        using u0 by (simp only: mult_le_cancel_right_pos of_int_le_iff)
      then show ?thesis using N by simp
    next
      assume z: "2 ^ 52 \<le> z"
      have "\<lfloor>z\<rfloor> \<le> ties_to_even z" by (rule ties_to_even_bounds)
      then have "z - 1 \<le> of_int (ties_to_even z)" by linarith
      moreover have "z * (1 - 1 / 2 ^ 52) \<le> z - 1" using z by (simp add: field_simps)
      ultimately have "z * (1 - 1 / 2 ^ 52) \<le> of_int (ties_to_even z)" by linarith
      then have "z * (1 - 1 / 2 ^ 52) * 2 powi e' \<le> of_int (ties_to_even z) * (2::real) powi e'"
        using u0 by (simp only: mult_le_cancel_right_pos)
      moreover have "z * (1 - 1 / 2 ^ 52) * 2 powi e' = x * (1 - 1 / 2 ^ 52)"
        using zx by (simp add: mult.assoc mult.left_commute mult.commute)
      moreover have "1 / 2 ^ 6 * (1 - 1 / 2 ^ 52) \<le> x * (1 - 1 / 2 ^ 52)"
        using above(1) by (intro mult_right_mono) simp_all
      moreover have "(5764607523034235::real) / 2 ^ 59 < 1 / 2 ^ 6 * (1 - 1 / 2 ^ 52)" by simp
      ultimately show ?thesis by linarith
    qed
    then have "\<not> num_le (double_of x) default_tolerance"
      by (simp add: d default_tolerance_value)
    moreover have "\<not> x < ?T" using above(1) by simp
    ultimately show ?thesis by simp
  next
    case binade
    have "double_up x 0 = (x * 2 ^ 59, 0 - int 59)"
      using binade by (intro double_up_steps) (simp_all add: field_simps)
    then have up: "double_up x 0 = (x * 2 ^ 59, - 59)" by simp
    have h: "halve x 0 = (x, 0)" using binade by (intro halve_small) simp
    have t: "ties_to_even (x * 2 ^ 59) \<le> 2 ^ 53"
      using binade by (intro ties_to_even_le) (simp add: field_simps)
    have t0: "0 \<le> ties_to_even (x * 2 ^ 59)"
      using assms by (intro ties_to_even_ge) simp
    have small: "\<not> 2 ^ 1024 \<le> of_int (ties_to_even (x * 2 ^ 59)) * (2::real) powi (- 59)"
    proof -
      have "of_int (ties_to_even (x * 2 ^ 59)) * (2::real) powi (- 59) \<le> 2 ^ 53 * 1"
        using t t0 by (intro mult_mono) (simp_all add: power_int_minus)
      then show ?thesis by simp
    qed
    have d: "double_of x = Finite (of_int (ties_to_even (x * 2 ^ 59)) / 2 ^ 59)"
      using assms small by (simp add: double_of_def h up Let_def power_int_minus field_simps)
    have "num_le (double_of x) default_tolerance \<longleftrightarrow> ties_to_even (x * 2 ^ 59) \<le> ?M"
      unfolding d default_tolerance_value by (simp add: divide_le_cancel)
    also have "\<dots> \<longleftrightarrow> x * 2 ^ 59 < of_int ?M + 1 / 2"
      by (rule ties_to_even_odd) simp
    also have "\<dots> \<longleftrightarrow> x < ?T" by (simp add: field_simps)
    finally show ?thesis .
  next
    case below
    have x53: "x < 2 ^ 53" using below by simp
    from double_of_positive [OF assms x53] obtain z e' where
      d: "double_of x = Finite (of_int (ties_to_even z) * 2 powi e')"
      and zx: "z * 2 powi e' = x" and z0: "0 < z" and n: "2 ^ 52 \<le> z \<or> e' \<le> - 1074"
      by blast
    have u0: "0 < (2::real) powi e'" by simp
    have "of_int (ties_to_even z) * (2::real) powi e' \<le> 5764607523034235 / 2 ^ 59"
      using n
    proof
      assume "e' \<le> - 1074"
      then have "e' \<le> - int 7" by simp
      from scaled_integer [OF this] obtain N :: int where N: "of_int N * (2::real) powi e' = 1 / 2 ^ 7"
        by blast
      have "z * 2 powi e' \<le> of_int N * (2::real) powi e'" using N zx below by simp
      then have "z \<le> of_int N" using u0 by (simp only: mult_le_cancel_right_pos)
      then have "ties_to_even z \<le> N" by (rule ties_to_even_le)
      then have "of_int (ties_to_even z) * (2::real) powi e' \<le> of_int N * 2 powi e'"
        using u0 by (simp only: mult_le_cancel_right_pos of_int_le_iff)
      then show ?thesis using N by simp
    next
      assume z: "2 ^ 52 \<le> z"
      have "ties_to_even z \<le> \<lfloor>z\<rfloor> + 1" by (rule ties_to_even_bounds)
      then have "of_int (ties_to_even z) \<le> z + 1" by linarith
      moreover have "z + 1 \<le> z * (1 + 1 / 2 ^ 52)" using z by (simp add: field_simps)
      ultimately have "of_int (ties_to_even z) \<le> z * (1 + 1 / 2 ^ 52)" by linarith
      then have "of_int (ties_to_even z) * (2::real) powi e' \<le> z * (1 + 1 / 2 ^ 52) * 2 powi e'"
        using u0 by (simp only: mult_le_cancel_right_pos)
      moreover have "z * (1 + 1 / 2 ^ 52) * 2 powi e' = x * (1 + 1 / 2 ^ 52)"
        using zx by (simp add: mult.assoc mult.left_commute mult.commute)
      moreover have "x * (1 + 1 / 2 ^ 52) \<le> 1 / 2 ^ 7 * (1 + 1 / 2 ^ 52)"
        using below by (intro mult_right_mono) simp_all
      moreover have "1 / 2 ^ 7 * (1 + 1 / 2 ^ 52) \<le> (5764607523034235::real) / 2 ^ 59" by simp
      ultimately show ?thesis by linarith
    qed
    then have "num_le (double_of x) default_tolerance"
      by (simp add: d default_tolerance_value)
    moreover have "x < ?T" using below by simp
    ultimately show ?thesis by simp
  qed
qed


lemma halve_pos: "halve x e = (y, e') \<Longrightarrow> 0 < x \<Longrightarrow> 0 < y"
proof (induction x e rule: halve.induct)
  case (1 x e)
  show ?case
  proof (cases "2 ^ 53 \<le> x")
    case True
    then have "halve x e = halve (x / 2) (e + 1)" by (subst halve.simps) simp
    with "1.IH" [OF True] "1.prems" show ?thesis by simp
  next
    case False
    then have "halve x e = (x, e)" by (subst halve.simps) simp
    with "1.prems" show ?thesis by simp
  qed
qed

lemma num_abs_double_of: "num_abs (double_of x) = double_of \<bar>x\<bar>"
proof (cases "x = 0")
  case True
  then show ?thesis by (simp add: double_of_def)
next
  case False
  obtain y e where h: "halve \<bar>x\<bar> 0 = (y, e)" by (cases "halve \<bar>x\<bar> 0")
  obtain z e' where up: "double_up y e = (z, e')" by (cases "double_up y e")
  from halve_pos [OF h] False have "0 < y" by simp
  from double_up_inv [OF up this] have "0 < z" by simp
  then have "0 \<le> ties_to_even z" by (intro ties_to_even_ge) simp
  then have v: "0 \<le> of_int (ties_to_even z) * (2::real) powi e'" by simp
  show ?thesis
    using False v by (simp add: double_of_def h up Let_def)
qed

lemma validatePaymentAmount_exact:
  "validatePaymentAmount (Finite a) (Finite b) default_tolerance \<longleftrightarrow>
     \<bar>a - b\<bar> < (5764607523034235 + 1 / 2) / 2 ^ 59"
proof -
  have "validatePaymentAmount (Finite a) (Finite b) default_tolerance \<longleftrightarrow>
        num_le (double_of \<bar>a - b\<bar>) default_tolerance"
    by (simp add: validatePaymentAmount_def num_sub_def num_abs_double_of)
  also have "\<dots> \<longleftrightarrow> \<bar>a - b\<bar> < (5764607523034235 + 1 / 2) / 2 ^ 59"
  proof (cases "a = b")
    case True
    then show ?thesis by (simp add: double_of_def default_tolerance_value)
  next
    case False
    then have "0 < \<bar>a - b\<bar>" by simp
    then show ?thesis by (rule double_of_le_tolerance)
  qed
  finally show ?thesis .
qed


text \<open>
  The sum of a creation request is rounded as JavaScript rounds it: three items at 0.1
  make 0.30000000000000004, which is not the double nearest to 3/10.
\<close>

lemma totalAmount_example:
  "totalAmount [\<lparr>item_id = i, title = t, quantity = Finite 3, unitPrice = double_of (1 / 10),
                 currencyId = c\<rparr>] = Finite (5404319552844596 / 2 ^ 54)"
  "double_of (3 / 10) = Finite (5404319552844595 / 2 ^ 54)"
  by (simp_all add: totalAmount_def double_of_def halve.simps double_up.simps ties_to_even_def)

lemma totalAmount_one_item:
  "totalAmount [\<lparr>item_id = i, title = t, quantity = Finite 1, unitPrice = Finite 100, currencyId = c\<rparr>]
     = Finite 100"
  by (simp add: totalAmount_def double_of_examples)

lemma run_checks_in_window:
  assumes "att key = Some \<lparr>count = c, resetAt = R\<rparr>" and "\<forall>t\<in>set ts. t \<le> R" and "c \<le> N"
  shows "run_checks key N W ts att =
           (map (\<lambda>i. c + int i < N) [0..<length ts],
            att(key \<mapsto> \<lparr>count = min (c + int (length ts)) N, resetAt = R\<rparr>))"
  using assms
proof (induction ts arbitrary: att c)
  case Nil
  then show ?case by (auto simp: min_def)
next
  case (Cons t ts)
  show ?case
  proof (cases "c < N")
    case True
    have step: "check key N W t att = (True, att(key \<mapsto> \<lparr>count = c + 1, resetAt = R\<rparr>))"
      using Cons.prems True by (simp add: check_def)
    have rest: "run_checks key N W ts (att(key \<mapsto> \<lparr>count = c + 1, resetAt = R\<rparr>)) =
           (map (\<lambda>i. (c + 1) + int i < N) [0..<length ts],
            (att(key \<mapsto> \<lparr>count = c + 1, resetAt = R\<rparr>))
              (key \<mapsto> \<lparr>count = min ((c + 1) + int (length ts)) N, resetAt = R\<rparr>))"
      using Cons.prems True by (intro Cons.IH) auto
    have shift: "map (\<lambda>i. c + int i < N) [0..<length (t # ts)] =
                 True # map (\<lambda>i. (c + 1) + int i < N) [0..<length ts]"
      using True by (auto simp: upt_conv_Cons map_Suc_upt [symmetric] add.assoc simp del: upt_Suc)
    show ?thesis
      unfolding shift by (auto simp: step rest add.assoc)
  next
    case False
    with Cons.prems have eq: "c = N" by simp
    have step: "check key N W t att = (False, att)"
      using Cons.prems eq by (simp add: check_def)
    have rest: "run_checks key N W ts att =
           (map (\<lambda>i. c + int i < N) [0..<length ts],
            att(key \<mapsto> \<lparr>count = min (c + int (length ts)) N, resetAt = R\<rparr>))"
      using Cons.prems by (intro Cons.IH) auto
    have shift: "map (\<lambda>i. c + int i < N) [0..<length (t # ts)] =
                 False # map (\<lambda>i. c + int i < N) [0..<length ts]"
      using eq by (auto simp: upt_conv_Cons map_Suc_upt [symmetric] simp del: upt_Suc)
    show ?thesis
      unfolding shift using eq Cons.prems(1) by (auto simp: step rest)
  qed
qed

text \<open>
  C8. Starting with no record for the key, with a limit \<open>N \<ge> 1\<close>: the first call stores
  count 1 with the reset instant \<open>t1 + W\<close> and succeeds; of the calls made while the clock
  has not passed \<open>t1 + W\<close>, exactly the first \<open>N\<close> succeed (so the \<open>(N+1)\<close>th fails);
  and a call after \<open>t1 + W\<close> starts a new window and succeeds.
\<close>

theorem RateLimiter_fixed_window:
  assumes "1 \<le> N" and "att key = None" and "\<forall>t\<in>set ts. t \<le> t1 + W"
    and "run_checks key N W (t1 # ts) att = (oks, att')" and "t1 + W < t'"
  shows "check key N W t1 att = (True, att(key \<mapsto> \<lparr>count = 1, resetAt = t1 + W\<rparr>))
       \<and> oks = map (\<lambda>i. int i < N) [0..<Suc (length ts)]
       \<and> (length ts \<ge> nat N \<longrightarrow> oks ! nat N = False)
       \<and> check key N W t' att' = (True, att'(key \<mapsto> \<lparr>count = 1, resetAt = t' + W\<rparr>))"
proof -
  let ?a1 = "att(key \<mapsto> \<lparr>count = 1, resetAt = t1 + W\<rparr>)"
  have first: "check key N W t1 att = (True, ?a1)"
    using assms(2) by (simp add: check_def)
  have rest: "run_checks key N W ts ?a1 =
      (map (\<lambda>i. 1 + int i < N) [0..<length ts],
       ?a1(key \<mapsto> \<lparr>count = min (1 + int (length ts)) N, resetAt = t1 + W\<rparr>))"
    using assms(1,3) by (intro run_checks_in_window) auto
  have oks: "oks = True # map (\<lambda>i. 1 + int i < N) [0..<length ts]"
    and att': "att' = ?a1(key \<mapsto> \<lparr>count = min (1 + int (length ts)) N, resetAt = t1 + W\<rparr>)"
    using assms(4) by (simp_all add: first rest)
  have shift: "map (\<lambda>i. int i < N) [0..<Suc (length ts)] =
               True # map (\<lambda>i. 1 + int i < N) [0..<length ts]"
    using assms(1) by (auto simp: upt_conv_Cons map_Suc_upt [symmetric] simp del: upt_Suc)
  have all: "oks = map (\<lambda>i. int i < N) [0..<Suc (length ts)]"
    using oks shift by simp
  have nth: "length ts \<ge> nat N \<longrightarrow> oks ! nat N = False"
  proof
    assume "length ts \<ge> nat N"
    then have "nat N < length [0..<Suc (length ts)]" by simp
    then have "oks ! nat N = (int ([0..<Suc (length ts)] ! nat N) < N)"
      unfolding all by (rule nth_map)
    also have "[0..<Suc (length ts)] ! nat N = nat N"
      using \<open>length ts \<ge> nat N\<close> by (metis add_0 le_imp_less_Suc nth_upt)
    finally show "oks ! nat N = False" using assms(1) by simp
  qed
  have after: "check key N W t' att' = (True, att'(key \<mapsto> \<lparr>count = 1, resetAt = t' + W\<rparr>))"
    using assms(5) by (simp add: check_def att')
  show ?thesis using first all nth after by blast
qed

theorem RateLimiter_fixed_window_witness:
  "run_checks ''k'' 2 1000 [0, 10, 1000, 500] Map.empty =
     ([True, True, False, False],
      [''k'' \<mapsto> \<lparr>count = 2, resetAt = 1000\<rparr>])
   \<and> check ''k'' 2 1000 0 Map.empty = (True, [''k'' \<mapsto> \<lparr>count = 1, resetAt = 1000\<rparr>])
   \<and> check ''k'' 2 1000 1001 [''k'' \<mapsto> \<lparr>count = 2, resetAt = 1000\<rparr>] =
        (True, [''k'' \<mapsto> \<lparr>count = 1, resetAt = 2001\<rparr>])"
proof -
  have run: "run_checks ''k'' 2 1000 [0, 10, 1000, 500] Map.empty =
     ([True, True, False, False], [''k'' \<mapsto> \<lparr>count = 2, resetAt = 1000\<rparr>])"
    by (simp add: check_def)
  have "\<forall>t\<in>set [10, 1000, 500::int]. t \<le> 0 + 1000" by simp
  from RateLimiter_fixed_window [OF _ _ this run, of 1001] show ?thesis
    using run by simp
qed

lemma str_split_no_sep: "sep \<notin> set s \<Longrightarrow> str_split sep s = [s]"
  by (induction s) auto

lemma str_split_append:
  "sep \<notin> set a \<Longrightarrow> str_split sep (a @ sep # b) = a # str_split sep b"
  by (induction a) auto

lemma hex_digest_sample_hmac: "hex_digest sample_hmac"
  unfolding hex_digest_def sample_hmac_def by (auto simp: nth_Cons')

lemma hex_digest_chars:
  assumes "hex_digest hmac"
  shows "length (hmac k m) = 64" and "CHR '','' \<notin> set (hmac k m)" and "CHR ''='' \<notin> set (hmac k m)"
  using assms [unfolded hex_digest_def, rule_format, of k m] by auto

lemma header_parts:
  assumes "CHR '','' \<notin> set ts" and "CHR '','' \<notin> set h"
  shows "str_split CHR '','' (''ts='' @ ts @ '',v1='' @ h) = [''ts='' @ ts, ''v1='' @ h]"
proof -
  have "str_split CHR '','' ((''ts='' @ ts) @ CHR '','' # (''v1='' @ h)) =
        (''ts='' @ ts) # str_split CHR '','' (''v1='' @ h)"
    using assms(1) by (intro str_split_append) simp
  moreover have "str_split CHR '','' (''v1='' @ h) = [''v1='' @ h]"
    using assms(2) by (intro str_split_no_sep) simp
  ultimately show ?thesis by simp
qed

lemma component_value:
  assumes "CHR ''='' \<notin> set v"
  shows "index1 (str_split CHR ''='' (''ts='' @ v)) = Some v"
    and "index1 (str_split CHR ''='' (''v1='' @ v)) = Some v"
proof -
  have "str_split CHR ''='' (''ts'' @ CHR ''='' # v) = ''ts'' # str_split CHR ''='' v"
    by (intro str_split_append) simp
  then show "index1 (str_split CHR ''='' (''ts='' @ v)) = Some v"
    using assms by (simp add: str_split_no_sep)
  have "str_split CHR ''='' (''v1'' @ CHR ''='' # v) = ''v1'' # str_split CHR ''='' v"
    by (intro str_split_append) simp
  then show "index1 (str_split CHR ''='' (''v1='' @ v)) = Some v"
    using assms by (simp add: str_split_no_sep)
qed

lemma verify_wellformed_header:
  assumes "rid \<noteq> []" and "ts \<noteq> []" and "CHR '','' \<notin> set ts" and "CHR ''='' \<notin> set ts"
    and "h \<noteq> []" and "CHR '','' \<notin> set h" and "CHR ''='' \<notin> set h"
  shows "verifyWebhookSignature hmac (Some (''ts='' @ ts @ '',v1='' @ h)) (Some rid) dataId secret =
         timingSafeEqual h (hmac secret (manifest dataId rid ts))"
proof -
  define sig where "sig = ''ts='' @ ts @ '',v1='' @ h"
  define p1 where "p1 = ''ts='' @ ts"
  define p2 where "p2 = ''v1='' @ h"
  have parts: "str_split CHR '','' sig = [p1, p2]"
    unfolding sig_def p1_def p2_def by (rule header_parts [OF assms(3) assms(6)])
  have sig: "sig \<noteq> []" by (simp add: sig_def)
  have f1: "startsWith p1 ''ts=''" and f2: "\<not> startsWith p1 ''v1=''" and f3: "startsWith p2 ''v1=''"
    by (simp_all add: startsWith_def p1_def p2_def)
  have c1: "index1 (str_split CHR ''='' p1) = Some ts"
    unfolding p1_def by (rule component_value [OF assms(4)])
  have c2: "index1 (str_split CHR ''='' p2) = Some h"
    unfolding p2_def by (rule component_value [OF assms(7)])
  have "verifyWebhookSignature hmac (Some sig) (Some rid) dataId secret =
         timingSafeEqual h (hmac secret (manifest dataId rid ts))"
    using assms(1,2,5) sig by (simp add: verifyWebhookSignature_def parts f1 f2 f3 c1 c2)
  then show ?thesis by (simp only: sig_def)
qed



text \<open>
  C4 (the code at the failing inputs). A well-formed header whose \<open>v1\<close> component is not
  64 bytes long does not make the verifier return false: the comparison throws.
\<close>

theorem wrong_length_hash_throws:
  assumes "hex_digest hmac" and "requestId \<noteq> []" and "ts \<noteq> []"
    and "CHR '','' \<notin> set ts" and "CHR ''='' \<notin> set ts"
    and "h \<noteq> []" and "CHR '','' \<notin> set h" and "CHR ''='' \<notin> set h" and "length h \<noteq> 64"
  shows "verifyWebhookSignature hmac (Some (''ts='' @ ts @ '',v1='' @ h)) (Some requestId) dataId secret
         = Inl RangeError"
  using verify_wellformed_header [OF assms(2-8)] assms(9) hex_digest_chars(1) [OF assms(1)]
  by (simp add: timingSafeEqual_def)

theorem wrong_length_hash_throws_witness:
  "verifyWebhookSignature sample_hmac (Some ''ts=1,v1=abc'') (Some ''r'') ''1'' ''s'' = Inl RangeError"
  using wrong_length_hash_throws [OF hex_digest_sample_hmac, of "''r''" "''1''" "''abc''" "''1''" "''s''"]
  by simp



subsection \<open>What the blocks of the webhook handlers do\<close>
























subsection \<open>Duplicate deliveries\<close>









subsection \<open>The concrete scenario, evaluated\<close>





lemma env_simps:
  "hmac_sha256 (env_approved t) = sample_hmac" "hmac_sha256 (env_unreachable t) = sample_hmac"
  "hmac_sha256 (env_tampered t) = sample_hmac"
  "now (env_approved t) = t" "now (env_unreachable t) = t" "now (env_tampered t) = t"
  "payment_get (env_approved t) i = Inr approved_payment"
  "payment_get (env_unreachable t) i = Inl network_error"
  "payment_get (env_tampered t) i = Inr (approved_payment\<lparr>transaction_amount := Some (Finite 150)\<rparr>)"
  "adapter_findOne (env_approved t) = Returns" "adapter_findOne (env_tampered t) = Returns"
  "adapter_update (env_approved t) = Returns" "adapter_update (env_tampered t) = Returns"
  "hmac_sha256 (env_cent t) = sample_hmac" "now (env_cent t) = t"
  "payment_get (env_cent t) i = Inr (approved_payment\<lparr>transaction_amount := Some (double_of (10001 / 100))\<rparr>)"
  "adapter_findOne (env_cent t) = Returns"
  by (simp_all add: env_approved_def env_unreachable_def env_tampered_def env_cent_def)









subsection \<open>The mark after a failed delivery\<close>








subsection \<open>Amount mismatch\<close>





subsection \<open>What a webhook is answered with\<close>













subsection \<open>The creation flow\<close>

lemma preference_bodies_append:
  "preference_bodies (xs @ ys) = preference_bodies xs @ preference_bodies ys"
  by (induction xs rule: preference_bodies.induct) simp_all

lemma inserted_payments_append:
  "inserted_payments (xs @ ys) = inserted_payments xs @ inserted_payments ys"
  by (induction xs rule: inserted_payments.induct) simp_all

lemma generated_ids_append:
  "generated_ids (xs @ ys) = generated_ids xs @ generated_ids ys"
  by (induction xs rule: generated_ids.induct) simp_all

lemma create_gate_effect:
  assumes "create_gate env uid key s = (a, s1)"
  shows "events s1 = events s \<and> payments s1 = payments s \<and> splits s1 = splits s
       \<and> customers s1 = customers s"
  using assms
  by (auto simp: create_gate_def Let_def split: prod.splits if_splits option.splits)

lemma ensure_customer_effect:
  assumes "ensure_customer env uid mail s = (a, s1)"
  shows "payments s1 = payments s \<and> splits s1 = splits s
       \<and> (\<exists>new. events s1 = events s @ new \<and> preference_bodies new = []
              \<and> inserted_payments new = [])"
  using assms
  by (auto simp: ensure_customer_def Let_def emit_def split: option.splits sum.splits)

lemma create_finish_effect:
  assumes "create_finish env key res s = (r, s1)"
  shows "r = Inr (Fresh res) \<and> payments s1 = payments s \<and> splits s1 = splits s
       \<and> (\<exists>new. events s1 = events s @ new \<and> preference_bodies new = []
              \<and> inserted_payments new = [] \<and> generated_ids new = [])"
  using assms
  by (auto simp: create_finish_def emit_def split: if_splits)

lemma store_payment_server_effect:
  assumes "store_payment_server env req uid k pref s = (r, s')"
  shows "\<exists>p new. r = Inr (Fresh \<lparr>checkoutUrl = init_point pref, res_preferenceId = pref_id pref,
                                  payment = p\<rparr>)
           \<and> payments s' = payments s @ [p] \<and> events s' = events s @ new
           \<and> inserted_payments new = [p] \<and> preference_bodies new = []
           \<and> externalReference p = None \<and> status p = Some ''pending''"
proof -
  obtain p s6 where fin: "create_finish env (idempotencyKey req)
           \<lparr>checkoutUrl = init_point pref, res_preferenceId = pref_id pref, payment = p\<rparr> s6 = (r, s')"
    and p: "externalReference p = None" "status p = Some ''pending''"
    and s6: "payments s6 = payments s @ [p]"
      "\<exists>new. events s6 = events s @ new \<and> inserted_payments new = [p] \<and> preference_bodies new = []"
    using assms unfolding store_payment_server_def Let_def
    by (cases "cp_marketplace req") (auto simp: emit_def)
  from create_finish_effect [OF fin] s6 show ?thesis
    using p by (auto simp: inserted_payments_append preference_bodies_append)
qed

lemma createPayment_server_trace:
  assumes "createPayment_server opts env req s = (r, s')"
  shows "(preference_bodies (added s s') = [] \<and> inserted_payments (added s s') = []
            \<and> payments s' = payments s)
       \<or> (\<exists>body err. preference_bodies (added s s') = [body]
              \<and> preference_create env body = Inl err \<and> r = Inl (handleMercadoPagoError err)
              \<and> inserted_payments (added s s') = [] \<and> payments s' = payments s
              \<and> splits s' = splits s)
       \<or> (\<exists>body pref p. preference_bodies (added s s') = [body]
              \<and> preference_create env body = Inr pref
              \<and> inserted_payments (added s s') = [p] \<and> payments s' = payments s @ [p]
              \<and> r = Inr (Fresh \<lparr>checkoutUrl = init_point pref, res_preferenceId = pref_id pref,
                                 payment = p\<rparr>)
              \<and> external_reference body = None \<and> externalReference p = None
              \<and> status p = Some ''pending'')"
proof (cases "session req")
  case None
  with assms show ?thesis by (simp add: createPayment_server_def added_def)
next
  case (Some u)
  obtain uid mail where u: "u = (uid, mail)" by (cases u)
  obtain g s1 where gate: "create_gate env uid (idempotencyKey req) s = (g, s1)"
    by (cases "create_gate env uid (idempotencyKey req) s")
  note g1 = create_gate_effect [OF gate]
  show ?thesis
  proof (cases g)
    case (Inl early)
    with assms Some u gate g1 show ?thesis
      by (simp add: createPayment_server_def added_def)
  next
    case (Inr un)
    show ?thesis
    proof (cases "untrusted_url opts env req \<noteq> None
        \<or> list_ex (\<lambda>i. \<not> ValidationRules_currency (currencyId i)) (cp_items req)")
      case True
      with assms Some u gate g1 Inr show ?thesis
        by (auto simp: createPayment_server_def added_def split: option.splits)
    next
      case False
      obtain cu s2 where cust: "ensure_customer env uid mail s1 = (cu, s2)"
        by (cases "ensure_customer env uid mail s1")
      from ensure_customer_effect [OF cust] g1 obtain new where
        c1: "payments s2 = payments s" "splits s2 = splits s" "events s2 = events s @ new"
        "preference_bodies new = []" "inserted_payments new = []"
        by auto
      have step: "createPayment_server opts env req s =
        (case cu of Inl e \<Rightarrow> (Inl e, s2)
         | Inr (c, k) \<Rightarrow>
             if \<not> ValidationRules_amount (totalAmount (cp_items req))
             then (Inl (APIError BAD_REQUEST (Some ''Invalid payment amount'') None), s2)
             else if cp_marketplace req \<noteq> None
                     \<and> num_le (totalAmount (cp_items req))
                           (fee_amount (cp_marketplace req) (totalAmount (cp_items req)))
             then (Inl (APIError BAD_REQUEST
                     (Some ''Application fee cannot exceed total amount'') None), s2)
             else
               (case preference_create env (preferenceBody_server opts env req uid mail c) of
                  Inl err \<Rightarrow> (Inl (handleMercadoPagoError err),
                              emit (PreferenceCreate (preferenceBody_server opts env req uid mail c)) s2)
                | Inr pref \<Rightarrow> store_payment_server env req uid k pref
                              (emit (PreferenceCreate (preferenceBody_server opts env req uid mail c)) s2)))"
        using Some u gate Inr False cust
        by (auto simp: createPayment_server_def Let_def split: sum.splits prod.splits)
      show ?thesis
      proof (cases cu)
        case (Inl e)
        with assms step c1 show ?thesis by (simp add: added_def)
      next
        case (Inr ck)
        obtain c k where ck: "ck = (c, k)" by (cases ck)
        let ?body = "preferenceBody_server opts env req uid mail c"
        let ?s3 = "emit (PreferenceCreate ?body) s2"
        have ev3: "events ?s3 = events s @ (new @ [PreferenceCreate ?body])"
          "payments ?s3 = payments s" "splits ?s3 = splits s"
          using c1 by (simp_all add: emit_def)
        consider (invalid) "s' = s2"
          | (failed) err where "preference_create env ?body = Inl err"
              "r = Inl (handleMercadoPagoError err)" "s' = ?s3"
          | (created) pref where "preference_create env ?body = Inr pref"
              "store_payment_server env req uid k pref ?s3 = (r, s')"
          using assms unfolding step Inr ck
          by (cases "preference_create env ?body") (auto split: if_splits)
        then show ?thesis
        proof cases
          case invalid
          with c1 show ?thesis by (simp add: added_def)
        next
          case failed
          with ev3 c1 show ?thesis
            by (auto simp: added_def preference_bodies_append inserted_payments_append)
        next
          case created
          from store_payment_server_effect [OF created(2)] obtain p more where
            e: "r = Inr (Fresh \<lparr>checkoutUrl = init_point pref, res_preferenceId = pref_id pref,
                                  payment = p\<rparr>)"
            "payments s' = payments ?s3 @ [p]" "events s' = events ?s3 @ more"
            "inserted_payments more = [p]" "preference_bodies more = []"
            "externalReference p = None" "status p = Some ''pending''"
            by blast
          have "added s s' = new @ [PreferenceCreate ?body] @ more"
            using e(3) ev3(1) by (simp add: added_def)
          moreover have "external_reference ?body = None"
            by (simp add: preferenceBody_server_def Let_def)
          ultimately show ?thesis
            using created(1) e c1 ev3(2)
            by (auto simp: preference_bodies_append inserted_payments_append)
        qed
      qed
    qed
  qed
qed


lemma handleMercadoPagoError_is_APIError: "is_APIError (handleMercadoPagoError err)"
  by (simp add: handleMercadoPagoError_def toAPIError_def split: option.splits)

lemma store_payment_index_effect:
  assumes "store_payment_index env req uid ref pref s = (r, s')"
  shows "\<exists>p tail. r = Inr (Fresh \<lparr>checkoutUrl = init_point pref, res_preferenceId = pref_id pref,
                                  payment = p\<rparr>)
           \<and> payments s' = payments s @ [p] \<and> events s' = events s @ PaymentInsert p # tail
           \<and> inserted_payments tail = [] \<and> preference_bodies tail = [] \<and> generated_ids tail = []
           \<and> externalReference p = Some ref \<and> status p = Some ''pending''"
proof -
  obtain p s3 where fin: "create_finish env (idempotencyKey req)
           \<lparr>checkoutUrl = init_point pref, res_preferenceId = pref_id pref, payment = p\<rparr> s3 = (r, s')"
    and p: "externalReference p = Some ref" "status p = Some ''pending''"
    and s3: "payments s3 = payments s @ [p]" "events s3 = events s @ [PaymentInsert p]"
    using assms unfolding store_payment_index_def Let_def by (auto simp: emit_def)
  from create_finish_effect [OF fin] s3 p show ?thesis by auto
qed

lemma createPayment_index_fails:
  assumes run: "createPayment_index opts env req s = (r, s')"
    and called: "body \<in> set (preference_bodies (added s s'))"
    and fails: "preference_create env body = Inl err"
  shows "r = Inl (Thrown err) \<and> inserted_payments (added s s') = [] \<and> payments s' = payments s"
proof (cases "session req")
  case None
  with run called show ?thesis by (simp add: createPayment_index_def added_def)
next
  case (Some u)
  obtain uid mail where u: "u = (uid, mail)" by (cases u)
  obtain g s1 where gate: "create_gate env uid (idempotencyKey req) s = (g, s1)"
    by (cases "create_gate env uid (idempotencyKey req) s")
  note g1 = create_gate_effect [OF gate]
  let ?ref = "generateId env 0"
  let ?body = "preferenceBody_index opts env req uid ?ref"
  let ?s2 = "emit (PreferenceCreate ?body) (emit (GenerateId ?ref) s1)"
  have ev2: "events ?s2 = events s @ [GenerateId ?ref, PreferenceCreate ?body]"
    "payments ?s2 = payments s"
    using g1 by (simp_all add: emit_def)
  consider (stopped) "s' = s1"
    | (failed) err' where "preference_create env ?body = Inl err'" "r = Inl (Thrown err')" "s' = ?s2"
    | (created) pref where "preference_create env ?body = Inr pref"
        "store_payment_index env req uid ?ref pref ?s2 = (r, s')"
    using run Some u gate
    by (cases g; cases "preference_create env ?body")
       (auto simp: createPayment_index_def Let_def split: if_splits)
  then show ?thesis
  proof cases
    case stopped
    with g1 called show ?thesis by (simp add: added_def)
  next
    case failed
    with ev2 called fails show ?thesis by (simp add: added_def)
  next
    case created
    from store_payment_index_effect [OF created(2)] obtain p tail where
      e: "events s' = events ?s2 @ PaymentInsert p # tail" "preference_bodies tail = []"
      by blast
    have "added s s' = GenerateId ?ref # PreferenceCreate ?body # PaymentInsert p # tail"
      using e(1) ev2(1) by (simp add: added_def)
    with called e(2) have "body = ?body" by simp
    with created(1) fails show ?thesis by simp
  qed
qed

text \<open>
  C9 (as amended), for either creation handler. When the call that creates the preference
  is made and throws, no payment record is created: the adapter's create for the payment
  is not in the trace, and the payment table is as before. \<^verbatim>\<open>createPayment\<close> of
  \<^verbatim>\<open>server.ts\<close> ends with the APIError that \<open>handleMercadoPagoError\<close> makes of the error
  (INTERNAL_SERVER_ERROR when the error has no status) and leaves the split table as it
  was; \<^verbatim>\<open>createPayment\<close> of the handler that correlates by external reference does not
  translate the error: the request ends with the provider's error itself.
\<close>

theorem provider_failure_persists_no_payment:
  assumes run: "createPayment h opts env req s = (r, s')"
    and called: "body \<in> set (preference_bodies (added s s'))"
    and fails: "preference_create env body = Inl err"
  shows "inserted_payments (added s s') = [] \<and> payments s' = payments s
       \<and> r = (case h of ServerTs \<Rightarrow> Inl (handleMercadoPagoError err) | ExternalRef \<Rightarrow> Inl (Thrown err))
       \<and> is_APIError (handleMercadoPagoError err) \<and> \<not> is_APIError (Thrown err)
       \<and> (err_status err = None \<longrightarrow>
            handleMercadoPagoError err =
              APIError INTERNAL_SERVER_ERROR (Some ''Failed to process Mercado Pago request'') None)
       \<and> (h = ServerTs \<longrightarrow> splits s' = splits s)"
proof -
  have none: "err_status err = None \<longrightarrow>
            handleMercadoPagoError err =
              APIError INTERNAL_SERVER_ERROR (Some ''Failed to process Mercado Pago request'') None"
    by (simp add: handleMercadoPagoError_def)
  show ?thesis
  proof (cases h)
    case ServerTs
    with run have "createPayment_server opts env req s = (r, s')" by simp
    from createPayment_server_trace [OF this] called fails
    have "r = Inl (handleMercadoPagoError err) \<and> inserted_payments (added s s') = []
        \<and> payments s' = payments s \<and> splits s' = splits s"
      by auto
    then show ?thesis
      using ServerTs none handleMercadoPagoError_is_APIError by simp
  next
    case ExternalRef
    with run have "createPayment_index opts env req s = (r, s')" by simp
    from createPayment_index_fails [OF this called fails]
    show ?thesis
      using ExternalRef none handleMercadoPagoError_is_APIError by simp
  qed
qed

text \<open>
  C6 (as amended): \<^verbatim>\<open>createPayment\<close> of the handler that correlates by external
  reference. A call either stops before anything is generated, sent or stored; or it
  generates the external reference once, sends it with the one provider call that
  follows, and stores nothing because that call throws; or it generates the reference
  once, sends it with the provider call, and then stores one payment record, pending,
  that carries the same reference.
\<close>

theorem externalReference_assigned_before_provider_call:
  assumes run: "createPayment_index opts env req s = (r, s')"
  shows "(added s s' = [] \<and> payments s' = payments s)
       \<or> (\<exists>body err. added s s' = [GenerateId (generateId env 0), PreferenceCreate body]
              \<and> external_reference body = Some (generateId env 0)
              \<and> preference_create env body = Inl err \<and> r = Inl (Thrown err)
              \<and> payments s' = payments s)
       \<or> (\<exists>body pref p tail.
              added s s' = GenerateId (generateId env 0) # PreferenceCreate body # PaymentInsert p # tail
              \<and> generated_ids tail = [] \<and> preference_bodies tail = [] \<and> inserted_payments tail = []
              \<and> external_reference body = Some (generateId env 0)
              \<and> preference_create env body = Inr pref
              \<and> externalReference p = Some (generateId env 0) \<and> status p = Some ''pending''
              \<and> payments s' = payments s @ [p]
              \<and> r = Inr (Fresh \<lparr>checkoutUrl = init_point pref, res_preferenceId = pref_id pref,
                                 payment = p\<rparr>))"
proof (cases "session req")
  case None
  with run show ?thesis by (simp add: createPayment_index_def added_def)
next
  case (Some u)
  obtain uid mail where u: "u = (uid, mail)" by (cases u)
  obtain g s1 where gate: "create_gate env uid (idempotencyKey req) s = (g, s1)"
    by (cases "create_gate env uid (idempotencyKey req) s")
  note g1 = create_gate_effect [OF gate]
  let ?ref = "generateId env 0"
  let ?body = "preferenceBody_index opts env req uid ?ref"
  let ?s2 = "emit (PreferenceCreate ?body) (emit (GenerateId ?ref) s1)"
  have ev2: "events ?s2 = events s @ [GenerateId ?ref, PreferenceCreate ?body]"
    "payments ?s2 = payments s"
    using g1 by (simp_all add: emit_def)
  have body: "external_reference ?body = Some ?ref"
    by (simp add: preferenceBody_index_def Let_def)
  consider (stopped) "s' = s1"
    | (failed) err where "preference_create env ?body = Inl err" "r = Inl (Thrown err)" "s' = ?s2"
    | (created) pref where "preference_create env ?body = Inr pref"
        "store_payment_index env req uid ?ref pref ?s2 = (r, s')"
    using run Some u gate
    by (cases g; cases "preference_create env ?body")
       (auto simp: createPayment_index_def Let_def split: if_splits)
  then show ?thesis
  proof cases
    case stopped
    with g1 show ?thesis by (simp add: added_def)
  next
    case failed
    with ev2 body show ?thesis by (simp add: added_def)
  next
    case created
    from store_payment_index_effect [OF created(2)] obtain p tail where
      e: "r = Inr (Fresh \<lparr>checkoutUrl = init_point pref, res_preferenceId = pref_id pref,
                          payment = p\<rparr>)"
      "payments s' = payments ?s2 @ [p]" "events s' = events ?s2 @ PaymentInsert p # tail"
      "inserted_payments tail = []" "preference_bodies tail = []" "generated_ids tail = []"
      "externalReference p = Some ?ref" "status p = Some ''pending''"
      by blast
    have "added s s' = GenerateId ?ref # PreferenceCreate ?body # PaymentInsert p # tail"
      using e(3) ev2(1) by (simp add: added_def)
    with e created(1) body ev2(2) show ?thesis by auto
  qed
qed


lemma creation_env_simps:
  "generateId (env_approved t) 0 = ''id_0''" "generateId (env_unreachable t) 0 = ''id_0''"
  "generateId (env_approved t) (Suc 0) = ''id_1''"
  "adapterId (env_approved t) = ''row_1''"
  "customer_create (env_approved t) m = Inr ''mp_cust_123''"
  "customer_create (env_unreachable t) m = Inr ''mp_cust_123''"
  "preference_create (env_approved t) b = Inr \<lparr>pref_id = ''pref_123'', init_point = ''https://mp.com/checkout/123''\<rparr>"
  "preference_create (env_unreachable t) b = Inl network_error"
  "contextBaseURL (env_approved t) = ''https://mysite.com''"
  "contextBaseURL (env_unreachable t) = ''https://mysite.com''"
  by (simp_all add: env_approved_def env_unreachable_def string_of_nat.simps)

lemma empty_state_simps:
  "attempts empty_state = Map.empty" "store empty_state = Map.empty" "customers empty_state = []"
  "payments empty_state = []" "splits empty_state = []" "events empty_state = []"
  by (simp_all add: empty_state_def)

lemma one_item_gate:
  "create_gate env ''u1'' None empty_state =
     (Inr (), empty_state\<lparr>attempts := [''payment:create:u1'' \<mapsto> \<lparr>count = 1, resetAt = now env + 60 * 1000\<rparr>]\<rparr>)"
  by (simp add: create_gate_def check_def empty_state_simps)

lemma one_item_valid:
  "\<not> list_ex (\<lambda>i. \<not> ValidationRules_currency (currencyId i)) (cp_items one_item_request)"
  "ValidationRules_amount (totalAmount (cp_items one_item_request))"
  "cp_marketplace one_item_request = None" "session one_item_request = Some (''u1'', ''u1@example.com'')"
  "untrusted_url plugin_options env one_item_request = None"
  "idempotencyKey one_item_request = None"
  by (simp_all add: one_item_request_def ValidationRules_currency_def validCurrencies_def
      ValidationRules_amount_def totalAmount_one_item untrusted_url_def plugin_options_def)

lemma server_provider_fails:
  "fst (createPayment_server plugin_options (env_unreachable 1000) one_item_request empty_state) =
     Inl (APIError INTERNAL_SERVER_ERROR (Some ''Failed to process Mercado Pago request'') None)"
  "preference_bodies (added empty_state
     (snd (createPayment_server plugin_options (env_unreachable 1000) one_item_request empty_state))) =
     [preferenceBody_server plugin_options (env_unreachable 1000) one_item_request ''u1'' ''u1@example.com''
        \<lparr>cust_id = ''id_0'', cust_userId = ''u1'', mercadoPagoId = ''mp_cust_123'',
         email = ''u1@example.com'', cust_createdAt = 1000, cust_updatedAt = 1000\<rparr>]"
  by (simp_all add: createPayment_server_def one_item_gate one_item_valid ensure_customer_def
      creation_env_simps env_simps empty_state_simps emit_def added_def Let_def
      handleMercadoPagoError_def network_error_def)

lemma index_provider_fails:
  "createPayment_index plugin_options (env_unreachable 1000) one_item_request empty_state =
     (Inl (Thrown network_error),
      empty_state\<lparr>attempts := [''payment:create:u1'' \<mapsto> \<lparr>count = 1, resetAt = 61000\<rparr>],
                  events := [GenerateId ''id_0'',
                             PreferenceCreate (preferenceBody_index plugin_options (env_unreachable 1000)
                                                 one_item_request ''u1'' ''id_0'')]\<rparr>)"
  by (simp add: createPayment_index_def one_item_gate one_item_valid
      creation_env_simps env_simps empty_state_simps emit_def Let_def)

theorem provider_failure_persists_no_payment_witness:
  "fst (createPayment ServerTs plugin_options (env_unreachable 1000) one_item_request empty_state) =
     Inl (APIError INTERNAL_SERVER_ERROR (Some ''Failed to process Mercado Pago request'') None)
   \<and> inserted_payments (added empty_state
        (snd (createPayment ServerTs plugin_options (env_unreachable 1000) one_item_request empty_state))) = []
   \<and> payments (snd (createPayment ServerTs plugin_options (env_unreachable 1000) one_item_request empty_state))
       = []"
proof -
  let ?body = "preferenceBody_server plugin_options (env_unreachable 1000) one_item_request ''u1''
        ''u1@example.com''
        \<lparr>cust_id = ''id_0'', cust_userId = ''u1'', mercadoPagoId = ''mp_cust_123'',
         email = ''u1@example.com'', cust_createdAt = 1000, cust_updatedAt = 1000\<rparr>"
  have run: "createPayment ServerTs plugin_options (env_unreachable 1000) one_item_request empty_state =
    (fst (createPayment ServerTs plugin_options (env_unreachable 1000) one_item_request empty_state),
     snd (createPayment ServerTs plugin_options (env_unreachable 1000) one_item_request empty_state))"
    by simp
  have called: "?body \<in> set (preference_bodies (added empty_state
     (snd (createPayment ServerTs plugin_options (env_unreachable 1000) one_item_request empty_state))))"
    unfolding createPayment.simps server_provider_fails(2) by simp
  have fails: "preference_create (env_unreachable 1000) ?body = Inl network_error"
    by (rule creation_env_simps)
  from provider_failure_persists_no_payment [OF run called fails]
  show ?thesis by (simp add: network_error_def empty_state_simps handleMercadoPagoError_def)
qed

text \<open>
  C9 as stated fails for \<^verbatim>\<open>createPayment\<close> of the handler that correlates by external
  reference: the provider's error reaches the caller as it is, not as an APIError (no
  payment record is stored there either).
\<close>

theorem untranslated_provider_error_counterexample:
  "fst (createPayment ExternalRef plugin_options (env_unreachable 1000) one_item_request empty_state)
     = Inl (Thrown network_error)
   \<and> \<not> is_APIError (Thrown network_error)
   \<and> payments (snd (createPayment ExternalRef plugin_options (env_unreachable 1000) one_item_request
         empty_state)) = []"
  by (simp add: index_provider_fails empty_state_simps)


lemma index_created_length:
  "length (added empty_state
     (snd (createPayment_index plugin_options (env_approved 1000) one_item_request empty_state))) = 3"
  by (simp add: createPayment_index_def store_payment_index_def create_finish_def one_item_gate
      one_item_valid creation_env_simps env_simps empty_state_simps emit_def added_def Let_def)

theorem externalReference_assigned_before_provider_call_witness:
  "generated_ids (added empty_state
     (snd (createPayment_index plugin_options (env_approved 1000) one_item_request empty_state)))
     = [''id_0'']
   \<and> map external_reference (preference_bodies (added empty_state
        (snd (createPayment_index plugin_options (env_approved 1000) one_item_request empty_state))))
     = [Some ''id_0'']
   \<and> map externalReference (inserted_payments (added empty_state
        (snd (createPayment_index plugin_options (env_approved 1000) one_item_request empty_state))))
     = [Some ''id_0'']
   \<and> map status (inserted_payments (added empty_state
        (snd (createPayment_index plugin_options (env_approved 1000) one_item_request empty_state))))
     = [Some ''pending'']"
proof -
  let ?run = "createPayment_index plugin_options (env_approved 1000) one_item_request empty_state"
  have run: "?run = (fst ?run, snd ?run)" by simp
  have ne: "added empty_state (snd ?run) \<noteq> []"
    using index_created_length by auto
  have ok: "preference_create (env_approved 1000) b \<noteq> Inl err" for b err
    by (simp add: creation_env_simps)
  from externalReference_assigned_before_provider_call [OF run] ne ok
  obtain body p tail where
    "added empty_state (snd ?run) =
       GenerateId (generateId (env_approved 1000) 0) # PreferenceCreate body # PaymentInsert p # tail"
    "generated_ids tail = []" "preference_bodies tail = []" "inserted_payments tail = []"
    "external_reference body = Some (generateId (env_approved 1000) 0)"
    "externalReference p = Some (generateId (env_approved 1000) 0)" "status p = Some ''pending''"
    by auto
  then show ?thesis by (simp add: creation_env_simps)
qed

text \<open>
  C6 as stated fails for \<^verbatim>\<open>createPayment\<close> of \<^verbatim>\<open>server.ts\<close>: it sends no external
  reference to the provider and stores none (the ids it generates are the customer's and
  the payment's).
\<close>

theorem server_createPayment_without_reference_counterexample:
  "generated_ids (added empty_state
     (snd (createPayment_server plugin_options (env_approved 1000) one_item_request empty_state)))
     = [''id_0'', ''id_1'']
   \<and> map external_reference (preference_bodies (added empty_state
        (snd (createPayment_server plugin_options (env_approved 1000) one_item_request empty_state))))
     = [None]
   \<and> map externalReference (inserted_payments (added empty_state
        (snd (createPayment_server plugin_options (env_approved 1000) one_item_request empty_state))))
     = [None]"
  by (simp add: createPayment_server_def store_payment_server_def create_finish_def one_item_gate
      one_item_valid ensure_customer_def preferenceBody_server_def
      creation_env_simps env_simps empty_state_simps emit_def added_def Let_def)

subsection \<open>Metadata sanitization\<close>

text \<open>
  What the sanitizer does achieve: its result has none of the three keys at any depth and
  no string longer than 5000 characters, and a longer string is cut to exactly 5000.
\<close>

lemma sanitize_clean:
  "clean_entries (sanitizeMetadata entries)"
  "clean_entries (sanitizeMetadata_array i vs)"
  "clean (sanitize_value v)"
  by (induction entries and i vs and v
      rule: sanitizeMetadata_sanitizeMetadata_array_sanitize_value.induct) simp_all

lemma sanitize_truncates:
  "length s > 5000 \<Longrightarrow> sanitize_value (JStr s) = JStr (take 5000 s) \<and> length (take 5000 s) = 5000"
  by simp

text \<open>
  C7 (the code at the failing input). An array value does not remain an array: the
  sanitizer is called on it as on an object and returns a plain object keyed by the
  indices.
\<close>

theorem sanitizeMetadata_array_becomes_object:
  "sanitizeMetadata [(''tags'', JArr [JStr ''a'', JNum 1])] =
     [(''tags'', JObj [(''0'', JStr ''a''), (''1'', JNum 1)])]"
  by (simp add: string_of_nat.simps)

end
